theory Spec2Isabelle
  imports Complex_Main "HOL-Library.Sublist"
begin

section \<open>Python values and the runtime operations the tool uses\<close>

text \<open>
  The tool of \<^verbatim>\<open>homebox_search.py\<close> formats whatever \<^verbatim>\<open>response.json()\<close> returns, so the
  model keeps Python's dynamic typing: a payload is a value of \<open>json\<close>, and every
  operator the source applies to it (\<^verbatim>\<open>in\<close>, subscripting, \<^verbatim>\<open>len\<close>, iteration,
  truth testing, \<^verbatim>\<open>+\<close>, \<^verbatim>\<open>//\<close>, f-string formatting) is a function that either returns or
  raises. A dict is an association list in insertion order, read with \<open>map_of\<close>; a
  parsed object has each key once, and on a list that repeats a key the first
  occurrence is the one read.
  Strings are lists of HOL's 8-bit characters (code points below 256). JSON numbers
  with a fraction or an exponent become Python floats; floating point is outside this
  model, so \<open>JInt\<close> is the only number.
\<close>

datatype json =
    JNull
  | JBool bool
  | JInt int
  | JStr string
  | JArr "json list"
  | JObj "(string \<times> json) list"

text \<open>
  An exception is kept by the class that decides which handler catches it, with the
  text \<^verbatim>\<open>str(e)\<close> gives: an instance of \<^verbatim>\<open>requests.RequestException\<close>, any other instance
  of \<^verbatim>\<open>Exception\<close>, or a \<^verbatim>\<open>BaseException\<close> outside \<^verbatim>\<open>Exception\<close> (KeyboardInterrupt,
  SystemExit). The texts of the interpreter's own errors are CPython 3.12's.
\<close>

datatype exn =
    RequestException string
  | Exception string
  | BaseException string

definition bindE :: "exn + 'a \<Rightarrow> ('a \<Rightarrow> exn + 'b) \<Rightarrow> exn + 'b" where
  "bindE m f = (case m of Inl e \<Rightarrow> Inl e | Inr x \<Rightarrow> f x)"

definition squote :: char where
  "squote = CHR 0x27"

definition dquote :: char where
  "dquote = CHR 0x22"

definition backslash :: char where
  "backslash = CHR 0x5C"

definition quoted :: "string \<Rightarrow> string" where
  "quoted s = squote # s @ [squote]"

fun join :: "string \<Rightarrow> string list \<Rightarrow> string" where
  "join sep [] = []"
| "join sep [x] = x"
| "join sep (x # y # ys) = x @ sep @ join sep (y # ys)"

fun digits :: "nat \<Rightarrow> string" where
  "digits n =
     (if n < 10 then [''0123456789'' ! n]
      else digits (n div 10) @ [''0123456789'' ! (n mod 10)])"

declare digits.simps [simp del]

definition str_int :: "int \<Rightarrow> string" where
  "str_int i = (if i < 0 then CHR ''-'' # digits (nat (- i)) else digits (nat i))"

definition hex2 :: "nat \<Rightarrow> string" where
  "hex2 n = [''0123456789abcdef'' ! (n div 16), ''0123456789abcdef'' ! (n mod 16)]"

definition printable :: "char \<Rightarrow> bool" where
  "printable c =
     (let n = (of_char c :: nat)
      in (32 \<le> n \<and> n < 127) \<or> (161 \<le> n \<and> n \<noteq> 173))"

definition repr_char :: "char \<Rightarrow> char \<Rightarrow> string" where
  "repr_char q c =
     (if c = q \<or> c = backslash then [backslash, c]
      else if c = CHR 0x09 then [backslash, CHR ''t'']
      else if c = CHR 0x0A then [backslash, CHR ''n'']
      else if c = CHR 0x0D then [backslash, CHR ''r'']
      else if printable c then [c]
      else backslash # CHR ''x'' # hex2 (of_char c))"

definition repr_str :: "string \<Rightarrow> string" where
  "repr_str s =
     (let q = (if squote \<in> set s \<and> dquote \<notin> set s then dquote else squote)
      in q # concat (map (repr_char q) s) @ [q])"

fun py_repr :: "json \<Rightarrow> string" where
  "py_repr JNull = ''None''"
| "py_repr (JBool b) = (if b then ''True'' else ''False'')"
| "py_repr (JInt i) = str_int i"
| "py_repr (JStr s) = repr_str s"
| "py_repr (JArr xs) = ''['' @ join '', '' (map py_repr xs) @ '']''"
| "py_repr (JObj kvs) =
     ''{'' @ join '', '' (map (\<lambda>kv. repr_str (fst kv) @ '': '' @ py_repr (snd kv)) kvs) @ ''}''"

text \<open>\<^verbatim>\<open>f"{v}"\<close>: a string is inserted as it is, every other value by its \<^verbatim>\<open>repr\<close>.\<close>

definition py_str :: "json \<Rightarrow> string" where
  "py_str v = (case v of JStr s \<Rightarrow> s | _ \<Rightarrow> py_repr v)"

definition type_name :: "json \<Rightarrow> string" where
  "type_name v =
     (case v of
        JNull \<Rightarrow> ''NoneType''
      | JBool _ \<Rightarrow> ''bool''
      | JInt _ \<Rightarrow> ''int''
      | JStr _ \<Rightarrow> ''str''
      | JArr _ \<Rightarrow> ''list''
      | JObj _ \<Rightarrow> ''dict'')"

definition py_truthy :: "json \<Rightarrow> bool" where
  "py_truthy v =
     (case v of
        JNull \<Rightarrow> False
      | JBool b \<Rightarrow> b
      | JInt i \<Rightarrow> i \<noteq> 0
      | JStr s \<Rightarrow> s \<noteq> []
      | JArr xs \<Rightarrow> xs \<noteq> []
      | JObj kvs \<Rightarrow> kvs \<noteq> [])"

text \<open>\<^verbatim>\<open>k in v\<close> for a string \<open>k\<close>: a key of a dict, an element of a list, a substring.\<close>

definition py_contains :: "string \<Rightarrow> json \<Rightarrow> exn + bool" where
  "py_contains k v =
     (case v of
        JObj kvs \<Rightarrow> Inr (map_of kvs k \<noteq> None)
      | JArr xs \<Rightarrow> Inr (JStr k \<in> set xs)
      | JStr s \<Rightarrow> Inr (sublist k s)
      | _ \<Rightarrow> Inl (Exception (''argument of type '' @ quoted (type_name v) @ '' is not iterable'')))"

text \<open>\<^verbatim>\<open>v[k]\<close> for a string \<open>k\<close>; a missing key raises KeyError, whose text is \<^verbatim>\<open>repr(k)\<close>.\<close>

definition py_getitem :: "json \<Rightarrow> string \<Rightarrow> exn + json" where
  "py_getitem v k =
     (case v of
        JObj kvs \<Rightarrow> (case map_of kvs k of Some x \<Rightarrow> Inr x | None \<Rightarrow> Inl (Exception (repr_str k)))
      | JArr _ \<Rightarrow> Inl (Exception ''list indices must be integers or slices, not str'')
      | JStr _ \<Rightarrow> Inl (Exception (''string indices must be integers, not '' @ quoted ''str''))
      | _ \<Rightarrow> Inl (Exception (quoted (type_name v) @ '' object is not subscriptable'')))"

text \<open>\<^verbatim>\<open>v[0]\<close>; the keys of a parsed JSON object are strings, so \<open>0\<close> is never one.\<close>

definition py_getitem0 :: "json \<Rightarrow> exn + json" where
  "py_getitem0 v =
     (case v of
        JArr xs \<Rightarrow> (case xs of [] \<Rightarrow> Inl (Exception ''list index out of range'') | x # _ \<Rightarrow> Inr x)
      | JStr s \<Rightarrow> (case s of [] \<Rightarrow> Inl (Exception ''string index out of range'') | c # _ \<Rightarrow> Inr (JStr [c]))
      | JObj _ \<Rightarrow> Inl (Exception ''0'')
      | _ \<Rightarrow> Inl (Exception (quoted (type_name v) @ '' object is not subscriptable'')))"

definition py_len :: "json \<Rightarrow> exn + nat" where
  "py_len v =
     (case v of
        JArr xs \<Rightarrow> Inr (length xs)
      | JStr s \<Rightarrow> Inr (length s)
      | JObj kvs \<Rightarrow> Inr (length kvs)
      | _ \<Rightarrow> Inl (Exception (''object of type '' @ quoted (type_name v) @ '' has no len()'')))"

text \<open>The values a \<^verbatim>\<open>for\<close> loop visits: elements, characters, or the keys of a dict.\<close>

definition py_iter :: "json \<Rightarrow> exn + json list" where
  "py_iter v =
     (case v of
        JArr xs \<Rightarrow> Inr xs
      | JStr s \<Rightarrow> Inr (map (\<lambda>c. JStr [c]) s)
      | JObj kvs \<Rightarrow> Inr (map (\<lambda>kv. JStr (fst kv)) kvs)
      | _ \<Rightarrow> Inl (Exception (quoted (type_name v) @ '' object is not iterable'')))"

text \<open>\<^verbatim>\<open>v + n\<close> for an int \<open>n\<close>; a bool counts as 0 or 1.\<close>

definition py_add_int :: "json \<Rightarrow> int \<Rightarrow> exn + int" where
  "py_add_int v n =
     (case v of
        JInt i \<Rightarrow> Inr (i + n)
      | JBool b \<Rightarrow> Inr ((if b then 1 else 0) + n)
      | JStr _ \<Rightarrow> Inl (Exception (''can only concatenate str (not '' @ [dquote] @ ''int'' @ [dquote] @ '') to str''))
      | JArr _ \<Rightarrow> Inl (Exception (''can only concatenate list (not '' @ [dquote] @ ''int'' @ [dquote] @ '') to list''))
      | _ \<Rightarrow> Inl (Exception (''unsupported operand type(s) for +: '' @ quoted (type_name v) @ '' and '' @ quoted ''int'')))"

text \<open>\<^verbatim>\<open>a // b\<close> on ints rounds towards minus infinity, as \<open>div\<close> on \<open>int\<close> does.\<close>

definition py_floordiv :: "int \<Rightarrow> int \<Rightarrow> exn + int" where
  "py_floordiv a b =
     (if b = 0 then Inl (Exception ''integer division or modulo by zero'') else Inr (a div b))"

text \<open>\<^verbatim>\<open>s.rstrip(c)\<close> removes every trailing \<open>c\<close>; \<^verbatim>\<open>s.endswith(t)\<close> is \<open>suffix t s\<close>.\<close>

definition rstrip :: "char \<Rightarrow> string \<Rightarrow> string" where
  "rstrip c s = rev (dropWhile (\<lambda>x. x = c) (rev s))"

section \<open>Configuration, requests and responses\<close>

record valves =
  homebox_url :: string
  cf_client_id :: string
  cf_client_secret :: string

datatype param = PStr string | PInt int | PList "string list"

record request =
  req_url :: string
  req_params :: "(string \<times> param) list"
  req_headers :: "(string \<times> string) list"

text \<open>
  The requests library is not part of the repository. A response is what the three
  calls of the source observe of it: the status and the texts \<^verbatim>\<open>raise_for_status\<close>
  reports, and what \<^verbatim>\<open>json()\<close> does (the parsed value, or the exception it raises).
  \<^verbatim>\<open>requests.get\<close> itself either raises or returns a response. The network is any
  function from the request sent to such an outcome.
\<close>

record response =
  status_code :: int
  reason :: string
  resp_url :: string
  resp_json :: "exn + json"

datatype outcome = Raises exn | Returns response

type_synonym network = "request \<Rightarrow> outcome"

text \<open>\<^verbatim>\<open>Response.raise_for_status\<close>: an HTTPError (a RequestException) for 4xx and 5xx.\<close>

definition http_error_msg :: "response \<Rightarrow> string" where
  "http_error_msg r =
     str_int (status_code r)
       @ (if status_code r < 500 then '' Client Error: '' else '' Server Error: '')
       @ reason r @ '' for url: '' @ resp_url r"

definition raise_for_status :: "response \<Rightarrow> exn + unit" where
  "raise_for_status r =
     (if 400 \<le> status_code r \<and> status_code r < 600
      then Inl (RequestException (http_error_msg r))
      else Inr ())"

text \<open>Lines 81-83 and their copies: get, raise_for_status, json.\<close>

definition fetch_json :: "outcome \<Rightarrow> exn + json" where
  "fetch_json out =
     (case out of
        Raises e \<Rightarrow> Inl e
      | Returns r \<Rightarrow> bindE (raise_for_status r) (\<lambda>_. resp_json r))"

text \<open>
  The two handlers every operation ends with: \<^verbatim>\<open>except requests.RequestException\<close> with
  the operation's own prefix, then \<^verbatim>\<open>except Exception\<close>. Anything else propagates.
\<close>

definition try_except :: "string \<Rightarrow> exn + string \<Rightarrow> exn + string" where
  "try_except label body =
     (case body of
        Inr s \<Rightarrow> Inr s
      | Inl (RequestException m) \<Rightarrow> Inr (label @ m)
      | Inl (Exception m) \<Rightarrow> Inr (''Unexpected error: '' @ m)
      | Inl (BaseException m) \<Rightarrow> Inl (BaseException m))"

definition config_error :: string where
  "config_error =
     ''Error: Homebox API URL is required. Please set your Homebox API URL in the tool settings.''"

definition get_headers :: "valves \<Rightarrow> (string \<times> string) list" where
  "get_headers v =
     [(''Content-Type'', ''application/json''), (''Accept'', ''application/json'')]
       @ (if cf_client_id v \<noteq> [] \<and> cf_client_secret v \<noteq> []
          then [(''CF-Access-Client-Id'', cf_client_id v),
                (''CF-Access-Client-Secret'', cf_client_secret v)]
          else [])"

text \<open>The URL lines each operation repeats (68-71, 137-139, 228-230, 269-271).\<close>

definition normalize_url :: "string \<Rightarrow> string" where
  "normalize_url u =
     (let base_url = rstrip CHR ''/'' u
      in if \<not> suffix ''/api'' base_url then base_url @ ''/api'' else base_url)"

section \<open>Formatting helpers shared by the operations\<close>

text \<open>The test \<^verbatim>\<open>'k' in item and item['k']\<close>, with the value when it holds.\<close>

definition truthy_field :: "json \<Rightarrow> string \<Rightarrow> exn + json option" where
  "truthy_field item k =
     bindE (py_contains k item) (\<lambda>present.
       if present
       then bindE (py_getitem item k) (\<lambda>v. Inr (if py_truthy v then Some v else None))
       else Inr None)"

text \<open>\<^verbatim>\<open>if 'k' in item and item['k']: result += f"<label>{item['k']}<ending>"\<close>\<close>

definition line_if_truthy :: "json \<Rightarrow> string \<Rightarrow> string \<Rightarrow> string \<Rightarrow> exn + string" where
  "line_if_truthy item k label ending =
     bindE (truthy_field item k) (\<lambda>v.
       Inr (case v of Some x \<Rightarrow> label @ py_str x @ ending | None \<Rightarrow> []))"

text \<open>\<^verbatim>\<open>if 'k' in item: result += f"<label>{item['k']}\n"\<close> (the quantity line)\<close>

definition line_if_present :: "json \<Rightarrow> string \<Rightarrow> string \<Rightarrow> exn + string" where
  "line_if_present item k label =
     bindE (py_contains k item) (\<lambda>present.
       if present
       then bindE (py_getitem item k) (\<lambda>v. Inr (label @ py_str v @ ''\<newline>''))
       else Inr [])"

text \<open>\<^verbatim>\<open>if 'location' in item and item['location']: result += f"<label>{item['location']['name']}\n"\<close>\<close>

definition location_line :: "json \<Rightarrow> string \<Rightarrow> exn + string" where
  "location_line item label =
     bindE (truthy_field item ''location'') (\<lambda>location.
       case location of
         Some l \<Rightarrow> bindE (py_getitem l ''name'') (\<lambda>n. Inr (label @ py_str n @ ''\<newline>''))
       | None \<Rightarrow> Inr [])"

text \<open>\<^verbatim>\<open>if 'k' in item and item['k']: info.append(<render item['k']>)\<close>\<close>

definition entry_if_truthy :: "json \<Rightarrow> string \<Rightarrow> (json \<Rightarrow> string) \<Rightarrow> exn + string list" where
  "entry_if_truthy item k render =
     bindE (truthy_field item k) (\<lambda>v.
       Inr (case v of Some x \<Rightarrow> [render x] | None \<Rightarrow> []))"

text \<open>\<^verbatim>\<open>if info: result += "\n<heading>:\n" + "\n".join(info) + "\n"\<close>\<close>

definition info_block :: "string \<Rightarrow> string list \<Rightarrow> string" where
  "info_block heading info =
     (if info \<noteq> []
      then ''\<newline>'' @ heading @ '':\<newline>'' @ join ''\<newline>'' info @ ''\<newline>''
      else [])"

text \<open>\<^verbatim>\<open>for idx, item in enumerate(items, idx): result += <block idx item>\<close>\<close>

fun for_enumerate ::
  "(int \<Rightarrow> json \<Rightarrow> exn + string) \<Rightarrow> json list \<Rightarrow> int \<Rightarrow> string \<Rightarrow> exn + string" where
  "for_enumerate block [] idx result = Inr result"
| "for_enumerate block (item # items) idx result =
     bindE (block idx item) (\<lambda>text. for_enumerate block items (idx + 1) (result @ text))"

text \<open>\<^verbatim>\<open>'data' in data and len(data['data']) > 0\<close>\<close>

definition nonempty_data :: "json \<Rightarrow> exn + bool" where
  "nonempty_data data =
     bindE (py_contains ''data'' data) (\<lambda>present.
       if present
       then bindE (py_getitem data ''data'') (\<lambda>d. bindE (py_len d) (\<lambda>n. Inr (n > 0)))
       else Inr False)"

text \<open>The pagination lines of both searches (111-116, 307-312); the text they append.\<close>

definition pagination :: "json \<Rightarrow> int \<Rightarrow> int \<Rightarrow> exn + string" where
  "pagination data page page_size =
     bindE (py_getitem data ''total'') (\<lambda>total.
     bindE (py_add_int total page_size) (\<lambda>s.
     bindE (py_floordiv (s - 1) page_size) (\<lambda>total_pages.
       Inr (''Page '' @ str_int page @ '' of '' @ str_int total_pages @ ''\<newline>''
            @ (if page < total_pages
               then ''Use 'page='' @ str_int (page + 1) @ squote # '' to see more results.''
               else [])))))"

section \<open>search_items\<close>

text \<open>Lines 89-109: the block of one item.\<close>

definition search_items_block :: "int \<Rightarrow> json \<Rightarrow> exn + string" where
  "search_items_block idx item =
     bindE (py_getitem item ''name'') (\<lambda>name.
     bindE (line_if_truthy item ''description'' ''   Description: '' ''\<newline>'') (\<lambda>description.
     bindE (location_line item ''   Location: '') (\<lambda>location.
     bindE (line_if_truthy item ''assetId'' ''   Asset ID: '' ''\<newline>'') (\<lambda>asset_id.
     bindE (line_if_present item ''quantity'' ''   Quantity: '') (\<lambda>quantity.
     bindE (line_if_truthy item ''manufacturer'' ''   Manufacturer: '' ''\<newline>'') (\<lambda>manufacturer.
     bindE (line_if_truthy item ''modelNumber'' ''   Model: '' ''\<newline>'') (\<lambda>model.
       Inr (str_int idx @ ''. '' @ py_str name @ ''\<newline>''
            @ description @ location @ asset_id @ quantity @ manufacturer @ model
            @ ''\<newline>''))))))))"

text \<open>Lines 85-120: the body of the \<^verbatim>\<open>try\<close> once the JSON is there.\<close>

definition search_items_format :: "json \<Rightarrow> string \<Rightarrow> int \<Rightarrow> int \<Rightarrow> exn + string" where
  "search_items_format data query page page_size =
     bindE (nonempty_data data) (\<lambda>nonempty.
       if nonempty
       then
         bindE (py_getitem data ''total'') (\<lambda>total.
         bindE (py_getitem data ''data'') (\<lambda>d.
         bindE (py_iter d) (\<lambda>items.
         bindE (for_enumerate search_items_block items 1
                  (''Found '' @ py_str total @ '' items matching '' @ quoted query
                     @ '':\<newline>\<newline>'')) (\<lambda>result.
         bindE (pagination data page page_size) (\<lambda>footer.
           Inr (result @ footer))))))
       else Inr (''No items found matching '' @ quoted query @ ''.''))"

text \<open>
  An operation returns the requests it sent, in order, and its result: \<open>Inr\<close> the string
  returned to the host, \<open>Inl\<close> an exception that left the function.
\<close>

definition search_items ::
  "valves \<Rightarrow> network \<Rightarrow> string \<Rightarrow> int \<Rightarrow> int \<Rightarrow> request list \<times> (exn + string)" where
  "search_items v net query page page_size =
     (if homebox_url v = [] then ([], Inr config_error)
      else
        let base_url = normalize_url (homebox_url v);
            endpoint = base_url @ ''/v1/items'';
            params = [(''q'', PStr query), (''page'', PInt page), (''pageSize'', PInt page_size)];
            req = \<lparr>req_url = endpoint, req_params = params, req_headers = get_headers v\<rparr>
        in ([req],
            try_except ''Error searching items: ''
              (bindE (fetch_json (net req)) (\<lambda>data.
                 search_items_format data query page page_size))))"

section \<open>get_item_details\<close>

text \<open>Lines 175-183 and 189-197: the two lists of lines.\<close>

definition purchase_info :: "json \<Rightarrow> exn + string list" where
  "purchase_info item =
     bindE (entry_if_truthy item ''purchaseFrom'' (\<lambda>v. ''- Purchased From: '' @ py_str v)) (\<lambda>a.
     bindE (entry_if_truthy item ''purchasePrice'' (\<lambda>v. ''- Purchase Price: '' @ py_str v)) (\<lambda>b.
     bindE (entry_if_truthy item ''purchaseTime'' (\<lambda>v. ''- Purchase Date: '' @ py_str v)) (\<lambda>c.
       Inr (a @ b @ c))))"

definition warranty_info :: "json \<Rightarrow> exn + string list" where
  "warranty_info item =
     bindE (entry_if_truthy item ''lifetimeWarranty'' (\<lambda>v. ''- Lifetime Warranty: Yes'')) (\<lambda>a.
     bindE (entry_if_truthy item ''warrantyDetails'' (\<lambda>v. ''- Warranty Details: '' @ py_str v)) (\<lambda>b.
     bindE (entry_if_truthy item ''warrantyExpires'' (\<lambda>v. ''- Warranty Expires: '' @ py_str v)) (\<lambda>c.
       Inr (a @ b @ c))))"

text \<open>Lines 203-206: the custom fields. That loop has no index; the one passed is unused.\<close>

definition custom_field_line :: "int \<Rightarrow> json \<Rightarrow> exn + string" where
  "custom_field_line idx field =
     bindE (py_getitem field ''name'') (\<lambda>n.
     bindE (py_getitem field ''value'') (\<lambda>v.
       Inr (''- '' @ py_str n @ '': '' @ py_str v @ ''\<newline>'')))"

definition custom_fields :: "json \<Rightarrow> exn + string" where
  "custom_fields item =
     bindE (truthy_field item ''fields'') (\<lambda>fields.
       case fields of
         Some fs \<Rightarrow>
           bindE (py_iter fs) (\<lambda>xs.
             for_enumerate custom_field_line xs 0 ''\<newline>Custom Fields:\<newline>'')
       | None \<Rightarrow> Inr [])"

text \<open>Lines 148-212: the body of the \<^verbatim>\<open>try\<close> once the JSON is there.\<close>

definition get_item_details_format :: "json \<Rightarrow> exn + string" where
  "get_item_details_format item =
     bindE (py_getitem item ''name'') (\<lambda>name.
     bindE (line_if_truthy item ''description'' ''Description: '' ''\<newline>\<newline>'') (\<lambda>description.
     bindE (line_if_truthy item ''assetId'' ''- Asset ID: '' ''\<newline>'') (\<lambda>asset_id.
     bindE (line_if_present item ''quantity'' ''- Quantity: '') (\<lambda>quantity.
     bindE (line_if_truthy item ''manufacturer'' ''- Manufacturer: '' ''\<newline>'') (\<lambda>manufacturer.
     bindE (line_if_truthy item ''modelNumber'' ''- Model Number: '' ''\<newline>'') (\<lambda>model.
     bindE (line_if_truthy item ''serialNumber'' ''- Serial Number: '' ''\<newline>'') (\<lambda>serial.
     bindE (location_line item ''\<newline>Location: '') (\<lambda>location.
     bindE (purchase_info item) (\<lambda>purchase.
     bindE (warranty_info item) (\<lambda>warranty.
     bindE (custom_fields item) (\<lambda>custom.
     bindE (line_if_truthy item ''notes'' ''\<newline>Notes:\<newline>'' ''\<newline>'') (\<lambda>notes.
       Inr (''Item Details: '' @ py_str name @ ''\<newline>\<newline>''
            @ description
            @ ''Basic Information:\<newline>''
            @ asset_id @ quantity @ manufacturer @ model @ serial
            @ location
            @ info_block ''Purchase Information'' purchase
            @ info_block ''Warranty Information'' warranty
            @ custom
            @ notes)))))))))))))"

definition get_item_details ::
  "valves \<Rightarrow> network \<Rightarrow> string \<Rightarrow> request list \<times> (exn + string)" where
  "get_item_details v net item_id =
     (if homebox_url v = [] then ([], Inr config_error)
      else
        let base_url = normalize_url (homebox_url v);
            endpoint = base_url @ ''/v1/items/'' @ item_id;
            req = \<lparr>req_url = endpoint, req_params = [], req_headers = get_headers v\<rparr>
        in ([req],
            try_except ''Error retrieving item details: ''
              (bindE (fetch_json (net req)) get_item_details_format)))"

section \<open>list_locations\<close>

text \<open>Lines 243-246: the block of one location.\<close>

definition location_block :: "int \<Rightarrow> json \<Rightarrow> exn + string" where
  "location_block idx location =
     bindE (py_getitem location ''name'') (\<lambda>name.
     bindE (line_if_truthy location ''description'' ''   Description: '' ''\<newline>'') (\<lambda>description.
     bindE (py_getitem location ''id'') (\<lambda>ident.
       Inr (str_int idx @ ''. '' @ py_str name @ ''\<newline>''
            @ description
            @ ''   ID: '' @ py_str ident @ ''\<newline>\<newline>''))))"

definition list_locations_format :: "json \<Rightarrow> exn + string" where
  "list_locations_format data =
     bindE (nonempty_data data) (\<lambda>nonempty.
       if nonempty
       then
         bindE (py_getitem data ''data'') (\<lambda>d.
         bindE (py_len d) (\<lambda>n.
         bindE (py_iter d) (\<lambda>locations.
           for_enumerate location_block locations 1
             (''Found '' @ str_int (int n) @ '' locations:\<newline>\<newline>''))))
       else Inr ''No locations found.'')"

definition list_locations :: "valves \<Rightarrow> network \<Rightarrow> request list \<times> (exn + string)" where
  "list_locations v net =
     (if homebox_url v = [] then ([], Inr config_error)
      else
        let base_url = normalize_url (homebox_url v);
            endpoint = base_url @ ''/v1/locations'';
            req = \<lparr>req_url = endpoint, req_params = [], req_headers = get_headers v\<rparr>
        in ([req],
            try_except ''Error listing locations: ''
              (bindE (fetch_json (net req)) list_locations_format)))"

section \<open>search_items_by_location\<close>

text \<open>Lines 286-289: the name shown in the header.\<close>

definition location_name :: "json \<Rightarrow> exn + string" where
  "location_name data =
     bindE (py_getitem data ''data'') (\<lambda>d.
     bindE (py_len d) (\<lambda>n.
       if n > 0
       then
         bindE (py_getitem0 d) (\<lambda>first.
         bindE (truthy_field first ''location'') (\<lambda>location.
           case location of
             Some l \<Rightarrow> bindE (py_getitem l ''name'') (\<lambda>nm. Inr (py_str nm))
           | None \<Rightarrow> Inr ''Unknown Location''))
       else Inr ''Unknown Location''))"

text \<open>Line 291: the header.\<close>

definition location_header :: "json \<Rightarrow> string \<Rightarrow> string" where
  "location_header count name =
     ''Found '' @ py_str count @ '' items in location '' @ quoted name @ '':\<newline>\<newline>''"

text \<open>Lines 294-305: the block of one item.\<close>

definition location_items_block :: "int \<Rightarrow> json \<Rightarrow> exn + string" where
  "location_items_block idx item =
     bindE (py_getitem item ''name'') (\<lambda>name.
     bindE (line_if_truthy item ''description'' ''   Description: '' ''\<newline>'') (\<lambda>description.
     bindE (line_if_truthy item ''assetId'' ''   Asset ID: '' ''\<newline>'') (\<lambda>asset_id.
     bindE (line_if_present item ''quantity'' ''   Quantity: '') (\<lambda>quantity.
       Inr (str_int idx @ ''. '' @ py_str name @ ''\<newline>''
            @ description @ asset_id @ quantity
            @ ''\<newline>'')))))"

definition search_items_by_location_format :: "json \<Rightarrow> int \<Rightarrow> int \<Rightarrow> exn + string" where
  "search_items_by_location_format data page page_size =
     bindE (nonempty_data data) (\<lambda>nonempty.
       if nonempty
       then
         bindE (location_name data) (\<lambda>name.
         bindE (py_getitem data ''total'') (\<lambda>total.
         bindE (py_getitem data ''data'') (\<lambda>d.
         bindE (py_iter d) (\<lambda>items.
         bindE (for_enumerate location_items_block items 1 (location_header total name))
           (\<lambda>result.
         bindE (pagination data page page_size) (\<lambda>footer.
           Inr (result @ footer)))))))
       else Inr ''No items found in the specified location.'')"

definition search_items_by_location ::
  "valves \<Rightarrow> network \<Rightarrow> string \<Rightarrow> int \<Rightarrow> int \<Rightarrow> request list \<times> (exn + string)" where
  "search_items_by_location v net location_id page page_size =
     (if homebox_url v = [] then ([], Inr config_error)
      else
        let base_url = normalize_url (homebox_url v);
            endpoint = base_url @ ''/v1/items'';
            params = [(''locations'', PList [location_id]), (''page'', PInt page),
                      (''pageSize'', PInt page_size)];
            req = \<lparr>req_url = endpoint, req_params = params, req_headers = get_headers v\<rparr>
        in ([req],
            try_except ''Error searching items by location: ''
              (bindE (fetch_json (net req)) (\<lambda>data.
                 search_items_by_location_format data page page_size))))"

section \<open>The specification's wording of the URL rule\<close>

text \<open>
  Section 4.2 of the specification, word for word: strip exactly one trailing slash if
  present, then append \<^verbatim>\<open>/api\<close> unless the trimmed URL already ends with it. It is
  compared with \<open>normalize_url\<close>, the rule of the source.
\<close>

definition normalize_url_spec :: "string \<Rightarrow> string" where
  "normalize_url_spec u =
     (let trimmed = (if u \<noteq> [] \<and> last u = CHR ''/'' then butlast u else u)
      in if suffix ''/api'' trimmed then trimmed else trimmed @ ''/api'')"

section \<open>Predicates and examples used in the statements\<close>

text \<open>
  An outcome of the network that raises nothing outside \<^verbatim>\<open>Exception\<close>: neither
  \<^verbatim>\<open>requests.get\<close> nor \<^verbatim>\<open>json()\<close> ends in a KeyboardInterrupt or a SystemExit.
\<close>

definition is_base :: "exn \<Rightarrow> bool" where
  "is_base e = (case e of BaseException _ \<Rightarrow> True | _ \<Rightarrow> False)"

definition no_base_exception :: "outcome \<Rightarrow> bool" where
  "no_base_exception out =
     (case out of
        Raises e \<Rightarrow> \<not> is_base e
      | Returns r \<Rightarrow> (case resp_json r of Inl e \<Rightarrow> \<not> is_base e | Inr _ \<Rightarrow> True))"

text \<open>A computation that returns, or raises an \<^verbatim>\<open>Exception\<close> that is no RequestException.\<close>

definition plain :: "exn + 'a \<Rightarrow> bool" where
  "plain r = (case r of Inl (Exception _) \<Rightarrow> True | Inl _ \<Rightarrow> False | Inr _ \<Rightarrow> True)"

text \<open>
  What the result of an operation must be for each outcome of the network, given the
  operation's label and its formatter. A connection failure and a 4xx or 5xx status are
  RequestExceptions; \<^verbatim>\<open>json()\<close> raises a RequestException in current versions of the
  library and a ValueError in older ones. Any other status is no failure: the body is
  parsed and formatted.
\<close>

definition reports_outcome ::
  "string \<Rightarrow> (json \<Rightarrow> exn + string) \<Rightarrow> outcome \<Rightarrow> exn + string \<Rightarrow> bool" where
  "reports_outcome label fmt out result =
     (case out of
        Raises (RequestException m) \<Rightarrow> result = Inr (label @ m)
      | Raises (Exception m) \<Rightarrow> result = Inr (''Unexpected error: '' @ m)
      | Raises (BaseException m) \<Rightarrow> result = Inl (BaseException m)
      | Returns r \<Rightarrow>
          if 400 \<le> status_code r \<and> status_code r < 600
          then result = Inr (label @ http_error_msg r)
          else (case resp_json r of
                  Inl (RequestException m) \<Rightarrow> result = Inr (label @ m)
                | Inl (Exception m) \<Rightarrow> result = Inr (''Unexpected error: '' @ m)
                | Inl (BaseException m) \<Rightarrow> result = Inl (BaseException m)
                | Inr data \<Rightarrow>
                    (case fmt data of
                       Inr s \<Rightarrow> result = Inr s
                     | Inl (RequestException m) \<Rightarrow> result = Inr (label @ m)
                     | Inl (Exception m) \<Rightarrow> result = Inr (''Unexpected error: '' @ m)
                     | Inl (BaseException m) \<Rightarrow> result = Inl (BaseException m))))"

text \<open>A configuration and a mock of the network for the examples.\<close>

definition valves0 :: valves where
  "valves0 =
     \<lparr>homebox_url = ''https://h.example.com/'', cf_client_id = ''id'', cf_client_secret = []\<rparr>"

definition respond :: "int \<Rightarrow> string \<Rightarrow> exn + json \<Rightarrow> network" where
  "respond code why body =
     (\<lambda>req. Returns \<lparr>status_code = code, reason = why, resp_url = req_url req,
                     resp_json = body\<rparr>)"

definition drill :: json where
  "drill = JObj [(''name'', JStr ''Drill''), (''quantity'', JInt 0)]"

definition ten_drills :: "json list" where
  "ten_drills = [drill, drill, drill, drill, drill, drill, drill, drill, drill, drill]"

text \<open>A page of search results as the API returns it: the total and the items.\<close>

definition found :: "int \<Rightarrow> json list \<Rightarrow> json" where
  "found n items = JObj [(''total'', JInt n), (''data'', JArr items)]"

definition saw :: json where
  "saw = JObj [(''name'', JStr ''Saw'')]"

definition garage_drill :: json where
  "garage_drill =
     JObj [(''name'', JStr ''Drill''),
           (''location'', JObj [(''id'', JStr ''g1''), (''name'', JStr ''Garage'')])]"

text \<open>A JSON object with some keys taken out, and the test "present and truthy".\<close>

definition without_keys :: "string list \<Rightarrow> (string \<times> json) list \<Rightarrow> (string \<times> json) list" where
  "without_keys ks kvs = filter (\<lambda>kv. fst kv \<notin> set ks) kvs"

definition present_and_truthy :: "(string \<times> json) list \<Rightarrow> string \<Rightarrow> bool" where
  "present_and_truthy kvs k = (case map_of kvs k of Some v \<Rightarrow> py_truthy v | None \<Rightarrow> False)"

definition warranted_drill :: "(string \<times> json) list" where
  "warranted_drill =
     [(''name'', JStr ''Drill''), (''lifetimeWarranty'', JBool True),
      (''warrantyDetails'', JStr []), (''warrantyExpires'', JStr ''2030'')]"

definition sparse_drill :: "(string \<times> json) list" where
  "sparse_drill =
     [(''name'', JStr ''Drill''), (''description'', JStr []), (''assetId'', JNull),
      (''quantity'', JInt 0), (''manufacturer'', JStr ''Acme''), (''lifetimeWarranty'', JBool False)]"

text \<open>The texts are the blocks of the items, in order and numbered from 1.\<close>

definition blocks_of :: "(int \<Rightarrow> json \<Rightarrow> exn + string) \<Rightarrow> json list \<Rightarrow> string list \<Rightarrow> bool" where
  "blocks_of block items texts =
     (length texts = length items
      \<and> (\<forall>i < length items. block (1 + int i) (items ! i) = Inr (texts ! i)))"

section \<open>Basic facts\<close>

lemma bindE_Inl [simp]: "bindE (Inl e) f = Inl e"
  by (simp add: bindE_def)

lemma bindE_Inr [simp]: "bindE (Inr x) f = f x"
  by (simp add: bindE_def)

subsection \<open>The operators on a JSON object and a JSON array\<close>

lemma bindE_eq_Inr: "bindE m f = Inr y \<longleftrightarrow> (\<exists>x. m = Inr x \<and> f x = Inr y)"
  by (cases m) simp_all

lemma py_contains_JObj [simp]: "py_contains k (JObj kvs) = Inr (map_of kvs k \<noteq> None)"
  by (simp add: py_contains_def)

lemma py_getitem_JObj [simp]:
  "py_getitem (JObj kvs) k =
     (case map_of kvs k of Some x \<Rightarrow> Inr x | None \<Rightarrow> Inl (Exception (repr_str k)))"
  by (simp add: py_getitem_def)

lemma py_len_JArr [simp]: "py_len (JArr xs) = Inr (length xs)"
  by (simp add: py_len_def)

lemma py_iter_JArr [simp]: "py_iter (JArr xs) = Inr xs"
  by (simp add: py_iter_def)

lemma py_getitem0_JArr [simp]: "py_getitem0 (JArr (x # xs)) = Inr x"
  by (simp add: py_getitem0_def)

lemma truthy_field_JObj:
  "truthy_field (JObj kvs) k =
     Inr (case map_of kvs k of Some v \<Rightarrow> if py_truthy v then Some v else None | None \<Rightarrow> None)"
  by (simp add: truthy_field_def split: option.splits)

lemma line_if_truthy_JObj:
  "line_if_truthy (JObj kvs) k label ending =
     Inr (case map_of kvs k of
            Some v \<Rightarrow> if py_truthy v then label @ py_str v @ ending else []
          | None \<Rightarrow> [])"
  by (simp add: line_if_truthy_def truthy_field_JObj split: option.splits)

lemma line_if_present_JObj:
  "line_if_present (JObj kvs) k label =
     Inr (case map_of kvs k of Some v \<Rightarrow> label @ py_str v @ ''\<newline>'' | None \<Rightarrow> [])"
  by (simp add: line_if_present_def split: option.splits)

lemma entry_if_truthy_JObj:
  "entry_if_truthy (JObj kvs) k render =
     Inr (case map_of kvs k of
            Some v \<Rightarrow> if py_truthy v then [render v] else []
          | None \<Rightarrow> [])"
  by (simp add: entry_if_truthy_def truthy_field_JObj split: option.splits)

lemma location_line_JObj:
  "location_line (JObj kvs) label =
     (case map_of kvs ''location'' of
        Some l \<Rightarrow>
          if py_truthy l
          then bindE (py_getitem l ''name'') (\<lambda>n. Inr (label @ py_str n @ ''\<newline>''))
          else Inr []
      | None \<Rightarrow> Inr [])"
  by (simp add: location_line_def truthy_field_JObj split: option.splits)

lemma py_getitem_eq_Inr:
  "py_getitem v k = Inr x \<longleftrightarrow> (\<exists>kvs. v = JObj kvs \<and> map_of kvs k = Some x)"
  by (cases v) (auto simp add: py_getitem_def split: option.splits)

lemma for_enumerate_extends:
  "for_enumerate block xs idx result = Inr out \<Longrightarrow> prefix result out"
proof (induction xs arbitrary: idx result)
  case Nil
  then show ?case by simp
next
  case (Cons x xs)
  then obtain t where "for_enumerate block xs (idx + 1) (result @ t) = Inr out"
    by (auto simp add: bindE_eq_Inr)
  then have "prefix (result @ t) out"
    by (rule Cons.IH)
  then show ?case
    by (rule append_prefixD)
qed

subsection \<open>Objects with keys taken out\<close>

lemma map_of_without_keys:
  "map_of (without_keys ks kvs) k = (if k \<in> set ks then None else map_of kvs k)"
  by (induction kvs) (auto simp add: without_keys_def)

lemma truthy_field_without:
  "truthy_field (JObj (without_keys ks item)) k =
     (if k \<in> set ks then Inr None else truthy_field (JObj item) k)"
  by (simp add: truthy_field_JObj map_of_without_keys)

lemma line_if_present_without:
  "k \<notin> set ks \<Longrightarrow>
   line_if_present (JObj (without_keys ks item)) k label = line_if_present (JObj item) k label"
  by (simp add: line_if_present_JObj map_of_without_keys)

lemma py_getitem_without:
  "k \<notin> set ks \<Longrightarrow> py_getitem (JObj (without_keys ks item)) k = py_getitem (JObj item) k"
  by (simp add: map_of_without_keys)

lemma info_block_Nil [simp]: "info_block heading [] = []"
  by (simp add: info_block_def)

subsection \<open>Stripping trailing characters\<close>

lemma takeWhile_eq_replicate:
  "takeWhile (\<lambda>x. x = c) xs = replicate (length (takeWhile (\<lambda>x. x = c) xs)) c"
  by (induction xs) simp_all

lemma dropWhile_replicate_append:
  "dropWhile (\<lambda>x. x = c) (replicate n c @ ys) = dropWhile (\<lambda>x. x = c) ys"
  by (induction n) simp_all

lemma rstrip_append_replicate:
  assumes "b = [] \<or> last b \<noteq> c"
  shows "rstrip c (b @ replicate n c) = b"
proof -
  have "dropWhile (\<lambda>x. x = c) (rev b) = rev b"
  proof (cases b rule: rev_cases)
    case Nil
    then show ?thesis by simp
  next
    case (snoc ys y)
    with assms have "y \<noteq> c" by simp
    with snoc show ?thesis by simp
  qed
  then show ?thesis
    by (simp add: rstrip_def dropWhile_replicate_append)
qed

lemma rstrip_decompose: "\<exists>n. s = rstrip c s @ replicate n c"
proof -
  let ?t = "takeWhile (\<lambda>x. x = c) (rev s)"
  have "rev s = ?t @ dropWhile (\<lambda>x. x = c) (rev s)"
    by simp
  then have "rev (rev s) = rev (dropWhile (\<lambda>x. x = c) (rev s)) @ rev ?t"
    by (metis rev_append)
  moreover have "rev ?t = replicate (length ?t) c"
    using takeWhile_eq_replicate [of c "rev s"] by (metis rev_replicate)
  ultimately have "s = rstrip c s @ replicate (length ?t) c"
    by (simp add: rstrip_def)
  then show ?thesis ..
qed

lemma rstrip_last: "rstrip c s = [] \<or> last (rstrip c s) \<noteq> c"
proof (cases "dropWhile (\<lambda>x. x = c) (rev s)")
  case Nil
  then show ?thesis by (simp add: rstrip_def)
next
  case (Cons y ys)
  have "\<not> (\<lambda>x. x = c) (hd (dropWhile (\<lambda>x. x = c) (rev s)))"
    by (rule hd_dropWhile) (simp add: Cons)
  with Cons have "y \<noteq> c" by simp
  with Cons show ?thesis by (simp add: rstrip_def)
qed

lemma rstrip_id: "s = [] \<or> last s \<noteq> c \<Longrightarrow> rstrip c s = s"
  using rstrip_append_replicate [of s c 0] by simp


lemma not_suffix_api_slash: "\<not> suffix ''/api'' (v @ [CHR ''/''])"
proof
  assume "suffix ''/api'' (v @ [CHR ''/''])"
  then obtain zs where "v @ [CHR ''/''] = zs @ ''/api''"
    by (auto simp add: suffix_def)
  then have "last (v @ [CHR ''/'']) = last (zs @ ''/api'')"
    by simp
  then show False by simp
qed

lemma normalize_url_decomposed:
  assumes "b = [] \<or> last b \<noteq> CHR ''/''"
  shows "normalize_url (b @ replicate n CHR ''/'') = (if suffix ''/api'' b then b else b @ ''/api'')"
  using rstrip_append_replicate [OF assms, of n] by (simp add: normalize_url_def)

subsection \<open>Evaluation\<close>

lemmas operation_defs =
  search_items_def get_item_details_def list_locations_def search_items_by_location_def
  normalize_url_def rstrip_def suffix_to_prefix get_headers_def try_except_def fetch_json_def
  raise_for_status_def http_error_msg_def str_int_def digits.simps respond_def valves0_def
  Let_def

lemmas python_defs =
  py_contains_def py_getitem_def py_getitem0_def py_len_def py_iter_def py_truthy_def
  py_str_def py_add_int_def py_floordiv_def repr_str_def repr_char_def printable_def
  quoted_def squote_def dquote_def backslash_def type_name_def

lemmas format_defs =
  search_items_format_def search_items_block_def get_item_details_format_def
  list_locations_format_def location_block_def search_items_by_location_format_def
  location_items_block_def location_name_def nonempty_data_def pagination_def
  truthy_field_def line_if_truthy_def line_if_present_def location_line_def
  entry_if_truthy_def info_block_def purchase_info_def warranty_info_def
  custom_fields_def custom_field_line_def location_header_def

subsection \<open>Which exceptions the formatting can raise\<close>

named_theorems plain_intros

lemma plain_Inr [simp, plain_intros]: "plain (Inr x)"
  by (simp add: plain_def)

lemma plain_Exception [simp, plain_intros]: "plain (Inl (Exception m))"
  by (simp add: plain_def)

lemma plain_bindE [plain_intros]:
  "plain m \<Longrightarrow> (\<And>x. plain (f x)) \<Longrightarrow> plain (bindE m f)"
  by (cases m) (auto simp add: plain_def bindE_def split: exn.splits)

lemma plain_if [plain_intros]: "plain a \<Longrightarrow> plain b \<Longrightarrow> plain (if c then a else b)"
  by simp

lemma plain_case_option [plain_intros]:
  "plain a \<Longrightarrow> (\<And>x. plain (f x)) \<Longrightarrow> plain (case v of None \<Rightarrow> a | Some x \<Rightarrow> f x)"
  by (cases v) simp_all

lemma plain_py_contains [plain_intros]: "plain (py_contains k v)"
  by (cases v) (simp_all add: py_contains_def)

lemma plain_py_getitem [plain_intros]: "plain (py_getitem v k)"
  by (cases v) (simp_all add: py_getitem_def split: option.splits)

lemma plain_py_getitem0 [plain_intros]: "plain (py_getitem0 v)"
  by (cases v) (simp_all add: py_getitem0_def split: list.splits)

lemma plain_py_len [plain_intros]: "plain (py_len v)"
  by (cases v) (simp_all add: py_len_def)

lemma plain_py_iter [plain_intros]: "plain (py_iter v)"
  by (cases v) (simp_all add: py_iter_def)

lemma plain_py_add_int [plain_intros]: "plain (py_add_int v n)"
  by (cases v) (simp_all add: py_add_int_def)

lemma plain_py_floordiv [plain_intros]: "plain (py_floordiv a b)"
  by (simp add: py_floordiv_def)

lemma plain_truthy_field [plain_intros]: "plain (truthy_field item k)"
  unfolding truthy_field_def by (intro plain_intros)

lemma plain_line_if_truthy [plain_intros]: "plain (line_if_truthy item k label ending)"
  unfolding line_if_truthy_def by (intro plain_intros)

lemma plain_line_if_present [plain_intros]: "plain (line_if_present item k label)"
  unfolding line_if_present_def by (intro plain_intros)

lemma plain_location_line [plain_intros]: "plain (location_line item label)"
  unfolding location_line_def by (intro plain_intros)

lemma plain_entry_if_truthy [plain_intros]: "plain (entry_if_truthy item k render)"
  unfolding entry_if_truthy_def by (intro plain_intros)

lemma plain_nonempty_data [plain_intros]: "plain (nonempty_data data)"
  unfolding nonempty_data_def by (intro plain_intros)

lemma plain_pagination [plain_intros]: "plain (pagination data page page_size)"
  unfolding pagination_def by (intro plain_intros)

lemma plain_for_enumerate [plain_intros]:
  "(\<And>i x. plain (block i x)) \<Longrightarrow> plain (for_enumerate block xs idx result)"
  by (induction xs arbitrary: idx result) (auto intro!: plain_bindE)

lemma plain_search_items_block [plain_intros]: "plain (search_items_block idx item)"
  unfolding search_items_block_def by (intro plain_intros)

lemma plain_search_items_format: "plain (search_items_format data query page page_size)"
  unfolding search_items_format_def by (intro plain_intros)

lemma plain_purchase_info [plain_intros]: "plain (purchase_info item)"
  unfolding purchase_info_def by (intro plain_intros)

lemma plain_warranty_info [plain_intros]: "plain (warranty_info item)"
  unfolding warranty_info_def by (intro plain_intros)

lemma plain_custom_field_line [plain_intros]: "plain (custom_field_line idx field)"
  unfolding custom_field_line_def by (intro plain_intros)

lemma plain_custom_fields [plain_intros]: "plain (custom_fields item)"
  unfolding custom_fields_def by (intro plain_intros)

lemma plain_get_item_details_format: "plain (get_item_details_format item)"
  unfolding get_item_details_format_def by (intro plain_intros)

lemma plain_location_block [plain_intros]: "plain (location_block idx location)"
  unfolding location_block_def by (intro plain_intros)

lemma plain_list_locations_format: "plain (list_locations_format data)"
  unfolding list_locations_format_def by (intro plain_intros)

lemma plain_location_name [plain_intros]: "plain (location_name data)"
  unfolding location_name_def by (intro plain_intros)

lemma plain_location_items_block [plain_intros]: "plain (location_items_block idx item)"
  unfolding location_items_block_def by (intro plain_intros)

lemma plain_search_items_by_location_format:
  "plain (search_items_by_location_format data page page_size)"
  unfolding search_items_by_location_format_def by (intro plain_intros)

lemma try_except_returns:
  assumes "no_base_exception out" and "\<And>data. plain (fmt data)"
  shows "\<exists>s. try_except label (bindE (fetch_json out) fmt) = Inr s"
proof (cases "fetch_json out")
  case (Inl e)
  have "\<not> is_base e"
    using assms(1) Inl
    by (auto simp add: no_base_exception_def fetch_json_def raise_for_status_def is_base_def
          split: outcome.splits if_splits sum.splits)
  with Inl show ?thesis
    by (cases e) (simp_all add: try_except_def is_base_def)
next
  case (Inr data)
  with assms(2) [of data] show ?thesis
    by (cases "fmt data") (auto simp add: try_except_def plain_def split: exn.splits)
qed

lemma try_except_reports:
  "reports_outcome label fmt out (try_except label (bindE (fetch_json out) fmt))"
  by (auto simp add: reports_outcome_def try_except_def fetch_json_def raise_for_status_def
        split: outcome.splits exn.splits sum.splits)


subsection \<open>The request an operation sends\<close>

lemma fetch_json_respond_ok:
  "fetch_json (respond 200 why body req) = body"
  by (simp add: fetch_json_def respond_def raise_for_status_def)

lemma search_items_sent:
  "fst (search_items v net query page page_size) = [req] \<Longrightarrow>
   snd (search_items v net query page page_size) =
     try_except ''Error searching items: ''
       (bindE (fetch_json (net req)) (\<lambda>data. search_items_format data query page page_size))"
  by (auto simp add: search_items_def Let_def split: if_splits)

lemma get_item_details_sent:
  "fst (get_item_details v net item_id) = [req] \<Longrightarrow>
   snd (get_item_details v net item_id) =
     try_except ''Error retrieving item details: ''
       (bindE (fetch_json (net req)) get_item_details_format)"
  by (auto simp add: get_item_details_def Let_def split: if_splits)

lemma list_locations_sent:
  "fst (list_locations v net) = [req] \<Longrightarrow>
   snd (list_locations v net) =
     try_except ''Error listing locations: ''
       (bindE (fetch_json (net req)) list_locations_format)"
  by (auto simp add: list_locations_def Let_def split: if_splits)

lemma search_items_by_location_sent:
  "fst (search_items_by_location v net location_id page page_size) = [req] \<Longrightarrow>
   snd (search_items_by_location v net location_id page page_size) =
     try_except ''Error searching items by location: ''
       (bindE (fetch_json (net req)) (\<lambda>data. search_items_by_location_format data page page_size))"
  by (auto simp add: search_items_by_location_def Let_def split: if_splits)

lemma sends_one_request:
  assumes "homebox_url v \<noteq> []"
  shows "\<exists>req. fst (search_items v net query page page_size) = [req]"
    and "\<exists>req. fst (get_item_details v net item_id) = [req]"
    and "\<exists>req. fst (list_locations v net) = [req]"
    and "\<exists>req. fst (search_items_by_location v net location_id page page_size) = [req]"
  using assms
  by (simp_all add: search_items_def get_item_details_def list_locations_def
        search_items_by_location_def Let_def)

section \<open>URL normalization\<close>

text \<open>
  Claim C3. The specification has the normalization strip exactly one trailing slash.
  The source calls \<^verbatim>\<open>rstrip('/')\<close>, which strips all of them: on a URL ending in two
  slashes the two rules give different results.
\<close>

theorem normalize_url_one_slash_counterexample:
  "normalize_url ''https://h.example.com//'' = ''https://h.example.com/api''
   \<and> normalize_url_spec ''https://h.example.com//'' = ''https://h.example.com//api''"
  by (simp add: normalize_url_def normalize_url_spec_def rstrip_def suffix_to_prefix)

text \<open>
  Claim C3, amended. Every string is some \<open>b\<close> that does not end in a slash followed by
  \<open>n\<close> slashes. The source strips all \<open>n\<close> of them and then appends \<^verbatim>\<open>/api\<close> unless \<open>b\<close>
  already ends with it; this is the result of the one-slash rule exactly when \<open>n\<close> is
  at most one. The URL each operation requests is this base followed by its path.
\<close>

theorem normalize_url_strips_every_slash:
  assumes "b = [] \<or> last b \<noteq> CHR ''/''"
  shows "normalize_url (b @ replicate n CHR ''/'') = (if suffix ''/api'' b then b else b @ ''/api'')
    \<and> (normalize_url_spec (b @ replicate n CHR ''/'') = normalize_url (b @ replicate n CHR ''/'')
         \<longleftrightarrow> n \<le> 1)
    \<and> (homebox_url v = b @ replicate n CHR ''/'' \<and> homebox_url v \<noteq> [] \<longrightarrow>
         map req_url (fst (search_items v net query page page_size))
           = [(if suffix ''/api'' b then b else b @ ''/api'') @ ''/v1/items'']
       \<and> map req_url (fst (get_item_details v net item_id))
           = [(if suffix ''/api'' b then b else b @ ''/api'') @ ''/v1/items/'' @ item_id]
       \<and> map req_url (fst (list_locations v net))
           = [(if suffix ''/api'' b then b else b @ ''/api'') @ ''/v1/locations'']
       \<and> map req_url (fst (search_items_by_location v net location_id page page_size))
           = [(if suffix ''/api'' b then b else b @ ''/api'') @ ''/v1/items''])"
proof -
  let ?u = "b @ replicate n CHR ''/''"
  have code: "normalize_url ?u = (if suffix ''/api'' b then b else b @ ''/api'')"
    by (rule normalize_url_decomposed [OF assms])
  have spec: "normalize_url_spec ?u = normalize_url ?u \<longleftrightarrow> n \<le> 1"
  proof (cases n)
    case 0
    with assms code show ?thesis
      by (auto simp add: normalize_url_spec_def)
  next
    case (Suc m)
    note n = Suc
    show ?thesis
    proof (cases m)
      case 0
      with n code show ?thesis
        by (simp add: normalize_url_spec_def)
    next
      case (Suc k)
      define w where "w = b @ replicate k CHR ''/''"
      have u: "?u = (w @ [CHR ''/'']) @ [CHR ''/'']"
        using n Suc by (simp add: w_def replicate_append_same)
      have "normalize_url_spec ((w @ [CHR ''/'']) @ [CHR ''/'']) = (w @ [CHR ''/'']) @ ''/api''"
        unfolding normalize_url_spec_def Let_def
        by (simp only: last_snoc butlast_snoc not_suffix_api_slash snoc_eq_iff_butlast
              if_True if_False simp_thms)
      with u have "length (normalize_url_spec ?u) = length b + k + 5"
        by (simp add: w_def)
      moreover have "length (normalize_url ?u) \<le> length b + 4"
        using code by simp
      ultimately have "normalize_url_spec ?u \<noteq> normalize_url ?u"
        by auto
      with n Suc show ?thesis by simp
    qed
  qed
  have sent: "map req_url (fst (search_items v net query page page_size))
           = [normalize_url (homebox_url v) @ ''/v1/items'']
       \<and> map req_url (fst (get_item_details v net item_id))
           = [normalize_url (homebox_url v) @ ''/v1/items/'' @ item_id]
       \<and> map req_url (fst (list_locations v net))
           = [normalize_url (homebox_url v) @ ''/v1/locations'']
       \<and> map req_url (fst (search_items_by_location v net location_id page page_size))
           = [normalize_url (homebox_url v) @ ''/v1/items'']"
    if "homebox_url v \<noteq> []"
    using that
    by (simp add: search_items_def get_item_details_def list_locations_def
          search_items_by_location_def Let_def)
  have ops: "homebox_url v = ?u \<and> homebox_url v \<noteq> [] \<longrightarrow>
         map req_url (fst (search_items v net query page page_size))
           = [(if suffix ''/api'' b then b else b @ ''/api'') @ ''/v1/items'']
       \<and> map req_url (fst (get_item_details v net item_id))
           = [(if suffix ''/api'' b then b else b @ ''/api'') @ ''/v1/items/'' @ item_id]
       \<and> map req_url (fst (list_locations v net))
           = [(if suffix ''/api'' b then b else b @ ''/api'') @ ''/v1/locations'']
       \<and> map req_url (fst (search_items_by_location v net location_id page page_size))
           = [(if suffix ''/api'' b then b else b @ ''/api'') @ ''/v1/items'']"
  proof
    assume h: "homebox_url v = ?u \<and> homebox_url v \<noteq> []"
    then have nonempty: "homebox_url v \<noteq> []"
      by (rule conjunct2)
    from h code
    have base: "normalize_url (homebox_url v) = (if suffix ''/api'' b then b else b @ ''/api'')"
      by simp
    from sent [OF nonempty] show "map req_url (fst (search_items v net query page page_size))
           = [(if suffix ''/api'' b then b else b @ ''/api'') @ ''/v1/items'']
       \<and> map req_url (fst (get_item_details v net item_id))
           = [(if suffix ''/api'' b then b else b @ ''/api'') @ ''/v1/items/'' @ item_id]
       \<and> map req_url (fst (list_locations v net))
           = [(if suffix ''/api'' b then b else b @ ''/api'') @ ''/v1/locations'']
       \<and> map req_url (fst (search_items_by_location v net location_id page page_size))
           = [(if suffix ''/api'' b then b else b @ ''/api'') @ ''/v1/items'']"
      by (simp only: base)
  qed
  from code spec ops show ?thesis
    by (intro conjI)
qed

theorem normalize_url_strips_every_slash_witness:
  "normalize_url ''https://h.example.com//'' = ''https://h.example.com/api''
   \<and> normalize_url_spec ''https://h.example.com//'' \<noteq> normalize_url ''https://h.example.com//''
   \<and> map req_url
        (fst (list_locations
           \<lparr>homebox_url = ''https://h.example.com//'', cf_client_id = [], cf_client_secret = []\<rparr>
           (respond 200 ''OK'' (Inr JNull))))
       = [''https://h.example.com/api/v1/locations'']"
proof -
  have "''https://h.example.com'' = [] \<or> last ''https://h.example.com'' \<noteq> CHR ''/''"
    by simp
  from normalize_url_strips_every_slash [OF this, of "Suc (Suc 0)"
      "\<lparr>homebox_url = ''https://h.example.com//'', cf_client_id = [], cf_client_secret = []\<rparr>"
      "respond 200 ''OK'' (Inr JNull)" "[]" 1 20 "[]" "[]"]
  show ?thesis
    by (auto simp add: suffix_to_prefix)
qed

text \<open>
  Claim C4. Normalizing twice gives what normalizing once gives, for every string; the
  two URLs of the specification's example both normalize to the same \<^verbatim>\<open>/api\<close> URL.
\<close>

theorem normalize_url_idempotent:
  "normalize_url (normalize_url u) = normalize_url u
   \<and> normalize_url ''https://h.example.com/'' = ''https://h.example.com/api''
   \<and> normalize_url ''https://h.example.com/api'' = ''https://h.example.com/api''"
proof -
  let ?b = "rstrip CHR ''/'' u"
  have b: "?b = [] \<or> last ?b \<noteq> CHR ''/''"
    by (rule rstrip_last)
  have idem: "normalize_url (normalize_url u) = normalize_url u"
  proof (cases "suffix ''/api'' ?b")
    case True
    then have "normalize_url u = ?b"
      by (simp add: normalize_url_def)
    moreover have "normalize_url ?b = ?b"
      using normalize_url_decomposed [OF b, of 0] True by simp
    ultimately show ?thesis by simp
  next
    case False
    then have n: "normalize_url u = ?b @ ''/api''"
      by (simp add: normalize_url_def)
    have "normalize_url ((?b @ ''/api'') @ replicate 0 CHR ''/'') =
        (if suffix ''/api'' (?b @ ''/api'') then ?b @ ''/api'' else (?b @ ''/api'') @ ''/api'')"
      by (rule normalize_url_decomposed) simp
    moreover have "suffix ''/api'' (?b @ ''/api'')"
      by (rule suffixI) simp
    ultimately have "normalize_url (?b @ ''/api'') = ?b @ ''/api''"
      by simp
    with n show ?thesis by simp
  qed
  have e1: "normalize_url ''https://h.example.com/'' = ''https://h.example.com/api''"
    by (simp add: normalize_url_def rstrip_def suffix_to_prefix)
  have e2: "normalize_url ''https://h.example.com/api'' = ''https://h.example.com/api''"
    by (simp add: normalize_url_def rstrip_def suffix_to_prefix)
  from idem e1 e2 show ?thesis by simp
qed

section \<open>Error handling\<close>

text \<open>
  Claim C1. The specification counts every non-2xx status among the failures whose
  error text the returned string embeds. The source leaves that decision to
  \<^verbatim>\<open>raise_for_status\<close>, which raises for 4xx and 5xx only: a 302 whose body is JSON is
  formatted like a 200, and the string returned holds no error.
\<close>

theorem non_2xx_status_counterexample:
  "snd (list_locations valves0 (respond 302 ''Found'' (Inr (JObj [(''data'', JArr [])]))))
     = Inr ''No locations found.''
   \<and> \<not> (200 \<le> (302 :: int) \<and> (302 :: int) < 300)
   \<and> raise_for_status
         \<lparr>status_code = 302, reason = ''Found'', resp_url = [], resp_json = Inr JNull\<rparr>
       = Inr ()"
  by (simp add: operation_defs format_defs python_defs)

text \<open>
  Claim C1, amended. Whatever the configuration and the arguments, and whatever the
  network does short of raising outside \<^verbatim>\<open>Exception\<close>, each of the four operations
  returns a string: no exception leaves it. When the request was sent and the HTTP
  layer failed (a connection error, a 4xx or 5xx status, a body that is not JSON), the
  string is the operation's label or the catch-all label followed by the text of the
  error. A status outside 400..599 is no failure: the string is what formatting the
  body gives, a missing field included, which ends in the catch-all label and the text
  of the error.
\<close>

theorem operations_never_raise:
  assumes "\<forall>req. no_base_exception (net req)"
  shows "(\<exists>s. snd (search_items v net query page page_size) = Inr s)
    \<and> (\<exists>s. snd (get_item_details v net item_id) = Inr s)
    \<and> (\<exists>s. snd (list_locations v net) = Inr s)
    \<and> (\<exists>s. snd (search_items_by_location v net location_id page page_size) = Inr s)
    \<and> (\<forall>req. fst (search_items v net query page page_size) = [req] \<longrightarrow>
          reports_outcome ''Error searching items: ''
            (\<lambda>data. search_items_format data query page page_size) (net req)
            (snd (search_items v net query page page_size)))
    \<and> (\<forall>req. fst (get_item_details v net item_id) = [req] \<longrightarrow>
          reports_outcome ''Error retrieving item details: ''
            get_item_details_format (net req)
            (snd (get_item_details v net item_id)))
    \<and> (\<forall>req. fst (list_locations v net) = [req] \<longrightarrow>
          reports_outcome ''Error listing locations: ''
            list_locations_format (net req)
            (snd (list_locations v net)))
    \<and> (\<forall>req. fst (search_items_by_location v net location_id page page_size) = [req] \<longrightarrow>
          reports_outcome ''Error searching items by location: ''
            (\<lambda>data. search_items_by_location_format data page page_size) (net req)
            (snd (search_items_by_location v net location_id page page_size)))"
proof -
  have ok: "\<And>req. no_base_exception (net req)"
    using assms by simp
  have a: "\<exists>s. snd (search_items v net query page page_size) = Inr s"
  proof (cases "homebox_url v = []")
    case True
    then show ?thesis by (simp add: search_items_def)
  next
    case False
    then obtain req where "fst (search_items v net query page page_size) = [req]"
      using sends_one_request(1) by blast
    then show ?thesis
      using try_except_returns [OF ok plain_search_items_format]
      by (simp add: search_items_sent)
  qed
  have b: "\<exists>s. snd (get_item_details v net item_id) = Inr s"
  proof (cases "homebox_url v = []")
    case True
    then show ?thesis by (simp add: get_item_details_def)
  next
    case False
    then obtain req where "fst (get_item_details v net item_id) = [req]"
      using sends_one_request(2) by blast
    then show ?thesis
      using try_except_returns [OF ok plain_get_item_details_format]
      by (simp add: get_item_details_sent)
  qed
  have c: "\<exists>s. snd (list_locations v net) = Inr s"
  proof (cases "homebox_url v = []")
    case True
    then show ?thesis by (simp add: list_locations_def)
  next
    case False
    then obtain req where "fst (list_locations v net) = [req]"
      using sends_one_request(3) by blast
    then show ?thesis
      using try_except_returns [OF ok plain_list_locations_format]
      by (simp add: list_locations_sent)
  qed
  have d: "\<exists>s. snd (search_items_by_location v net location_id page page_size) = Inr s"
  proof (cases "homebox_url v = []")
    case True
    then show ?thesis by (simp add: search_items_by_location_def)
  next
    case False
    then obtain req where "fst (search_items_by_location v net location_id page page_size) = [req]"
      using sends_one_request(4) by blast
    then show ?thesis
      using try_except_returns [OF ok plain_search_items_by_location_format]
      by (simp add: search_items_by_location_sent)
  qed
  from a b c d show ?thesis
    by (simp add: search_items_sent get_item_details_sent list_locations_sent
          search_items_by_location_sent try_except_reports)
qed

theorem operations_never_raise_witness:
  "(\<forall>req. no_base_exception (respond 500 ''Internal Server Error'' (Inr JNull) req))
   \<and> snd (search_items valves0 (respond 500 ''Internal Server Error'' (Inr JNull)) ''drill'' 1 20)
       = Inr ''Error searching items: 500 Server Error: Internal Server Error for url: https://h.example.com/api/v1/items''
   \<and> snd (get_item_details valves0 (\<lambda>req. Raises (RequestException ''Connection refused'')) ''42'')
       = Inr ''Error retrieving item details: Connection refused''
   \<and> snd (list_locations valves0 (respond 200 ''OK'' (Inl (RequestException ''Expecting value''))))
       = Inr ''Error listing locations: Expecting value''
   \<and> snd (search_items_by_location valves0 (respond 200 ''OK'' (Inl (Exception ''Expecting value'')))
          ''g1'' 1 20)
       = Inr ''Unexpected error: Expecting value''
   \<and> snd (get_item_details valves0 (respond 200 ''OK'' (Inr (JObj []))) ''42'')
       = Inr (''Unexpected error: '' @ quoted ''name'')"
proof -
  have ok: "\<forall>req. no_base_exception (respond 500 ''Internal Server Error'' (Inr JNull) req)"
    by (simp add: no_base_exception_def respond_def)
  have "snd (search_items valves0 (respond 500 ''Internal Server Error'' (Inr JNull)) ''drill'' 1 20)
       = Inr ''Error searching items: 500 Server Error: Internal Server Error for url: https://h.example.com/api/v1/items''"
    using operations_never_raise [OF ok, of valves0 "''drill''" 1 20]
    by (simp add: operation_defs reports_outcome_def)
  moreover
  have "snd (get_item_details valves0 (\<lambda>req. Raises (RequestException ''Connection refused'')) ''42'')
       = Inr ''Error retrieving item details: Connection refused''"
    by (simp add: operation_defs)
  moreover
  have "snd (list_locations valves0 (respond 200 ''OK'' (Inl (RequestException ''Expecting value''))))
       = Inr ''Error listing locations: Expecting value''"
    by (simp add: operation_defs)
  moreover
  have "snd (search_items_by_location valves0 (respond 200 ''OK'' (Inl (Exception ''Expecting value'')))
          ''g1'' 1 20)
       = Inr ''Unexpected error: Expecting value''"
    by (simp add: operation_defs)
  moreover
  have "snd (get_item_details valves0 (respond 200 ''OK'' (Inr (JObj []))) ''42'')
       = Inr (''Unexpected error: '' @ quoted ''name'')"
    by (simp add: operation_defs format_defs python_defs)
  ultimately show ?thesis
    using ok by simp
qed

text \<open>
  Claim C2. With an empty base URL each operation returns the fixed configuration
  error and the list of requests it sent is empty, whatever its other arguments and
  whatever the network would have answered.
\<close>

theorem empty_url_returns_config_error:
  assumes "homebox_url v = []"
  shows "search_items v net query page page_size = ([], Inr config_error)
    \<and> get_item_details v net item_id = ([], Inr config_error)
    \<and> list_locations v net = ([], Inr config_error)
    \<and> search_items_by_location v net location_id page page_size = ([], Inr config_error)"
  using assms
  by (simp add: search_items_def get_item_details_def list_locations_def
        search_items_by_location_def)

theorem empty_url_returns_config_error_witness:
  "homebox_url \<lparr>homebox_url = [], cf_client_id = ''id'', cf_client_secret = ''secret''\<rparr> = []
   \<and> search_items \<lparr>homebox_url = [], cf_client_id = ''id'', cf_client_secret = ''secret''\<rparr>
         (respond 200 ''OK'' (Inr JNull)) ''drill'' 1 20
       = ([], Inr ''Error: Homebox API URL is required. Please set your Homebox API URL in the tool settings.'')
   \<and> list_locations \<lparr>homebox_url = [], cf_client_id = ''id'', cf_client_secret = ''secret''\<rparr>
         (respond 200 ''OK'' (Inr JNull))
       = ([], Inr ''Error: Homebox API URL is required. Please set your Homebox API URL in the tool settings.'')"
  using empty_url_returns_config_error
    [of "\<lparr>homebox_url = [], cf_client_id = ''id'', cf_client_secret = ''secret''\<rparr>"
        "respond 200 ''OK'' (Inr JNull)" "''drill''" 1 20]
  by (simp add: config_error_def)

section \<open>Headers\<close>

text \<open>
  Claim C5. The two content headers are always there. The two proxy headers are there,
  with the configured values, when both the client id and the client secret are
  non-empty, and neither is there otherwise, so also when exactly one is set. Every
  request an operation sends carries these headers.
\<close>

theorem proxy_headers_all_or_nothing:
  "map_of (get_headers v) ''Content-Type'' = Some ''application/json''
   \<and> map_of (get_headers v) ''Accept'' = Some ''application/json''
   \<and> (if cf_client_id v \<noteq> [] \<and> cf_client_secret v \<noteq> []
      then map_of (get_headers v) ''CF-Access-Client-Id'' = Some (cf_client_id v)
         \<and> map_of (get_headers v) ''CF-Access-Client-Secret'' = Some (cf_client_secret v)
         \<and> map fst (get_headers v) =
             [''Content-Type'', ''Accept'', ''CF-Access-Client-Id'', ''CF-Access-Client-Secret'']
      else map_of (get_headers v) ''CF-Access-Client-Id'' = None
         \<and> map_of (get_headers v) ''CF-Access-Client-Secret'' = None
         \<and> map fst (get_headers v) = [''Content-Type'', ''Accept''])
   \<and> (\<forall>req.
        req \<in> set (fst (search_items v net query page page_size))
            \<union> set (fst (get_item_details v net item_id))
            \<union> set (fst (list_locations v net))
            \<union> set (fst (search_items_by_location v net location_id page page_size))
        \<longrightarrow> req_headers req = get_headers v)"
  by (auto simp add: get_headers_def search_items_def get_item_details_def list_locations_def
        search_items_by_location_def Let_def split: if_splits)

theorem proxy_headers_all_or_nothing_witness:
  "get_headers \<lparr>homebox_url = ''https://h.example.com'', cf_client_id = ''id'', cf_client_secret = []\<rparr>
     = [(''Content-Type'', ''application/json''), (''Accept'', ''application/json'')]
   \<and> get_headers \<lparr>homebox_url = ''https://h.example.com'', cf_client_id = [], cf_client_secret = ''secret''\<rparr>
     = [(''Content-Type'', ''application/json''), (''Accept'', ''application/json'')]
   \<and> get_headers \<lparr>homebox_url = ''https://h.example.com'', cf_client_id = ''id'', cf_client_secret = ''secret''\<rparr>
     = [(''Content-Type'', ''application/json''), (''Accept'', ''application/json''),
        (''CF-Access-Client-Id'', ''id''), (''CF-Access-Client-Secret'', ''secret'')]
   \<and> map req_headers (fst (list_locations valves0 (respond 200 ''OK'' (Inr JNull))))
     = [[(''Content-Type'', ''application/json''), (''Accept'', ''application/json'')]]"
  using proxy_headers_all_or_nothing [of valves0 "respond 200 ''OK'' (Inr JNull)" "[]" 1 20 "[]" "[]"]
  by (simp add: operation_defs)

section \<open>search_items: no results\<close>

text \<open>
  Claim C7. When the request was sent, the fetch returned a JSON object and its
  \<^verbatim>\<open>data\<close> is the empty list, search_items returns exactly
  \<^verbatim>\<open>No items found matching '<query>'.\<close> with the query interpolated.
\<close>

theorem search_items_no_items_message:
  assumes "fst (search_items v net query page page_size) = [req]"
    and "fetch_json (net req) = Inr (JObj data)"
    and "map_of data ''data'' = Some (JArr [])"
  shows "snd (search_items v net query page page_size)
    = Inr (''No items found matching '' @ [squote] @ query @ [squote] @ ''.'')"
  using assms
  by (simp add: search_items_sent search_items_format_def nonempty_data_def py_contains_def
        py_getitem_def py_len_def try_except_def quoted_def)

theorem search_items_no_items_message_witness:
  "fst (search_items valves0 (respond 200 ''OK'' (Inr (JObj [(''total'', JInt 0), (''data'', JArr [])]))) ''xyz'' 1 20)
     = [\<lparr>req_url = ''https://h.example.com/api/v1/items'',
         req_params = [(''q'', PStr ''xyz''), (''page'', PInt 1), (''pageSize'', PInt 20)],
         req_headers = [(''Content-Type'', ''application/json''), (''Accept'', ''application/json'')]\<rparr>]
   \<and> snd (search_items valves0 (respond 200 ''OK'' (Inr (JObj [(''total'', JInt 0), (''data'', JArr [])]))) ''xyz'' 1 20)
     = Inr ''No items found matching 'xyz'.''"
proof -
  let ?net = "respond 200 ''OK'' (Inr (JObj [(''total'', JInt 0), (''data'', JArr [])]))"
  let ?req = "\<lparr>req_url = ''https://h.example.com/api/v1/items'',
         req_params = [(''q'', PStr ''xyz''), (''page'', PInt 1), (''pageSize'', PInt 20)],
         req_headers = [(''Content-Type'', ''application/json''), (''Accept'', ''application/json'')]\<rparr>"
  have sent: "fst (search_items valves0 ?net ''xyz'' 1 20) = [?req]"
    by (simp add: operation_defs)
  have fetched: "fetch_json (?net ?req) = Inr (JObj [(''total'', JInt 0), (''data'', JArr [])])"
    by (rule fetch_json_respond_ok)
  have "map_of [(''total'', JInt 0), (''data'', JArr [])] ''data'' = Some (JArr [])"
    by simp
  from search_items_no_items_message [OF sent fetched this] sent show ?thesis
    by (simp add: squote_def)
qed

section \<open>search_items: the pagination footer\<close>

lemma ceiling_division:
  fixes total page_size :: int
  assumes "0 < page_size"
  shows "(total + page_size - 1) div page_size = \<lceil>real_of_int total / real_of_int page_size\<rceil>"
proof -
  have "(total + page_size - 1) div page_size = - (- total div page_size)"
  proof (rule int_div_pos_eq [of _ _ _ "page_size - 1 - (- total) mod page_size"])
    show "total + page_size - 1 =
        page_size * - (- total div page_size) + (page_size - 1 - (- total) mod page_size)"
      using mult_div_mod_eq [of page_size "- total"] by (simp add: algebra_simps)
    show "0 \<le> page_size - 1 - (- total) mod page_size"
      using pos_mod_bound [OF assms, of "- total"] by simp
    show "page_size - 1 - (- total) mod page_size < page_size"
      using pos_mod_sign [OF assms, of "- total"] by simp
  qed
  then show ?thesis
    by (simp add: ceiling_divide_eq_div)
qed

lemma pagination_positive:
  fixes total :: int
  assumes "map_of data ''total'' = Some (JInt total)" and "0 < page_size"
  shows "pagination (JObj data) page page_size =
    Inr (''Page '' @ str_int page @ '' of ''
         @ str_int \<lceil>real_of_int total / real_of_int page_size\<rceil> @ ''\<newline>''
         @ (if page < \<lceil>real_of_int total / real_of_int page_size\<rceil>
            then ''Use 'page='' @ str_int (page + 1) @ squote # '' to see more results.''
            else []))"
proof -
  have "(total + (page_size - 1)) div page_size = \<lceil>real_of_int total / real_of_int page_size\<rceil>"
    using ceiling_division [OF assms(2), of total] by (simp only: add_diff_eq)
  with assms ceiling_division [OF assms(2), of total] show ?thesis
    by (simp add: pagination_def py_add_int_def py_floordiv_def)
qed

text \<open>
  Claim C6. The specification has the footer show the ceiling of total / page_size for
  every successful response with an item. The source computes
  \<^verbatim>\<open>(total + page_size - 1) // page_size\<close> and checks nothing about \<^verbatim>\<open>page_size\<close>: with
  5 matches and a page size of -1 the footer reads \<^verbatim>\<open>Page 1 of -3\<close> while the ceiling
  is -5, and with a page size of 0 the division raises and no footer is returned.
\<close>

theorem search_items_pagination_counterexample:
  "snd (search_items valves0 (respond 200 ''OK'' (Inr (found 5 [drill]))) ''drill'' 1 (- 1))
     = Inr ''Found 5 items matching 'drill':\<newline>\<newline>1. Drill\<newline>   Quantity: 0\<newline>\<newline>Page 1 of -3\<newline>''
   \<and> \<lceil>real_of_int 5 / real_of_int (- 1)\<rceil> = - 5
   \<and> snd (search_items valves0 (respond 200 ''OK'' (Inr (found 5 [drill]))) ''drill'' 1 0)
     = Inr ''Unexpected error: integer division or modulo by zero''"
  by (simp add: operation_defs format_defs python_defs found_def drill_def)

text \<open>
  Claim C6, amended. For a positive page size: when the request was sent, the fetch
  returned an object with at least one item and an integer total, and the formatting
  raised nothing, the string returned ends with the footer: the page, the ceiling of
  total / page_size as the number of pages, and the hint to ask for page + 1 exactly
  when the page is below that number.
\<close>

theorem search_items_pagination_footer:
  fixes total :: int
  assumes "fst (search_items v net query page page_size) = [req]"
    and "fetch_json (net req) = Inr (JObj data)"
    and "map_of data ''data'' = Some (JArr items)"
    and "items \<noteq> []"
    and "map_of data ''total'' = Some (JInt total)"
    and "search_items_format (JObj data) query page page_size = Inr out"
    and "0 < page_size"
  shows "snd (search_items v net query page page_size) = Inr out
    \<and> (\<exists>body. out = body @ ''Page '' @ str_int page @ '' of ''
         @ str_int \<lceil>real_of_int total / real_of_int page_size\<rceil> @ ''\<newline>''
         @ (if page < \<lceil>real_of_int total / real_of_int page_size\<rceil>
            then ''Use 'page='' @ str_int (page + 1) @ squote # '' to see more results.''
            else []))"
proof -
  have result: "snd (search_items v net query page page_size) = Inr out"
    using assms(1,2,6) by (simp add: search_items_sent try_except_def)
  have nonempty: "nonempty_data (JObj data) = Inr True"
    using assms(3,4) by (simp add: nonempty_data_def)
  from assms(6) obtain body footer
    where "pagination (JObj data) page page_size = Inr footer" and "out = body @ footer"
    using assms(3,5) nonempty
    by (auto simp add: search_items_format_def bindE_eq_Inr)
  with pagination_positive [OF assms(5,7), of page] result show ?thesis
    by auto
qed

theorem search_items_pagination_footer_witness:
  "\<exists>body.
     snd (search_items valves0 (respond 200 ''OK'' (Inr (found 25 (ten_drills)))) ''drill'' 2 10)
       = Inr (body @ ''Page 2 of 3\<newline>Use 'page=3' to see more results.'')"
proof -
  let ?net = "respond 200 ''OK'' (Inr (found 25 (ten_drills)))"
  let ?req = "\<lparr>req_url = ''https://h.example.com/api/v1/items'',
         req_params = [(''q'', PStr ''drill''), (''page'', PInt 2), (''pageSize'', PInt 10)],
         req_headers = [(''Content-Type'', ''application/json''), (''Accept'', ''application/json'')]\<rparr>"
  have sent: "fst (search_items valves0 ?net ''drill'' 2 10) = [?req]"
    by (simp add: operation_defs)
  have fetched: "fetch_json (?net ?req)
      = Inr (JObj [(''total'', JInt 25), (''data'', JArr (ten_drills))])"
    by (simp add: fetch_json_respond_ok found_def)
  obtain out where out: "search_items_format
      (JObj [(''total'', JInt 25), (''data'', JArr (ten_drills))]) ''drill'' 2 10 = Inr out"
    using that
    by (simp add: format_defs python_defs drill_def ten_drills_def str_int_def digits.simps)
  have "\<exists>body. out = body @ ''Page '' @ str_int 2 @ '' of ''
         @ str_int \<lceil>real_of_int 25 / real_of_int 10\<rceil> @ ''\<newline>''
         @ (if 2 < \<lceil>real_of_int 25 / real_of_int 10\<rceil>
            then ''Use 'page='' @ str_int (2 + 1) @ squote # '' to see more results.''
            else [])"
    and "snd (search_items valves0 ?net ''drill'' 2 10) = Inr out"
    using search_items_pagination_footer [OF sent fetched _ _ _ out, of "ten_drills" 25]
    by (simp_all add: ten_drills_def)
  then show ?thesis
    by (simp add: str_int_def digits.simps squote_def)
qed

section \<open>search_items_by_location: the name in the header\<close>

text \<open>
  Claim C9. When the request was sent, the fetch returned an object whose first item is
  an object, and the formatting raised nothing, the string returned starts with the
  header line, and the location named there comes from the first item alone: the name
  of its \<^verbatim>\<open>location\<close> when that field is present and truthy, the placeholder
  \<^verbatim>\<open>Unknown Location\<close> when it is absent or falsy. The queried \<open>location_id\<close> does not
  occur in it.
\<close>

theorem location_name_from_first_item:
  assumes "fst (search_items_by_location v net location_id page page_size) = [req]"
    and "fetch_json (net req) = Inr (JObj data)"
    and "map_of data ''data'' = Some (JArr (JObj first # rest))"
    and "map_of data ''total'' = Some count"
    and "search_items_by_location_format (JObj data) page page_size = Inr out"
  shows "snd (search_items_by_location v net location_id page page_size) = Inr out
    \<and> (case map_of first ''location'' of
         None \<Rightarrow> prefix (location_header count ''Unknown Location'') out
       | Some l \<Rightarrow>
           if py_truthy l
           then \<exists>fields n. l = JObj fields \<and> map_of fields ''name'' = Some n
                  \<and> prefix (location_header count (py_str n)) out
           else prefix (location_header count ''Unknown Location'') out)"
proof -
  have result: "snd (search_items_by_location v net location_id page page_size) = Inr out"
    using assms(1,2,5) by (simp add: search_items_by_location_sent try_except_def)
  have nonempty: "nonempty_data (JObj data) = Inr True"
    using assms(3) by (simp add: nonempty_data_def)
  from assms(5) obtain name body footer
    where name: "location_name (JObj data) = Inr name"
      and body: "for_enumerate location_items_block (JObj first # rest) 1
          (location_header count name) = Inr body"
      and out: "out = body @ footer"
    using assms(3,4) nonempty
    by (auto simp add: search_items_by_location_format_def bindE_eq_Inr)
  have header: "prefix (location_header count name) out"
    using for_enumerate_extends [OF body] out by simp
  have "case map_of first ''location'' of
         None \<Rightarrow> name = ''Unknown Location''
       | Some l \<Rightarrow>
           if py_truthy l
           then \<exists>fields n. l = JObj fields \<and> map_of fields ''name'' = Some n \<and> name = py_str n
           else name = ''Unknown Location''"
    using name assms(3)
    by (auto simp add: location_name_def truthy_field_JObj bindE_eq_Inr py_getitem_eq_Inr
          split: option.splits)
  with header result show ?thesis
    by (auto split: option.splits)
qed

theorem location_name_from_first_item_witness:
  "(\<exists>out.
      snd (search_items_by_location valves0 (respond 200 ''OK'' (Inr (found 2 [garage_drill, saw])))
             ''g1'' 1 20) = Inr out
      \<and> prefix (''Found 2 items in location 'Garage':\<newline>\<newline>'') out)
   \<and> (\<exists>out.
      snd (search_items_by_location valves0 (respond 200 ''OK'' (Inr (found 2 [saw, garage_drill])))
             ''g1'' 1 20) = Inr out
      \<and> prefix (''Found 2 items in location 'Unknown Location':\<newline>\<newline>'') out)"
proof -
  let ?req = "\<lparr>req_url = ''https://h.example.com/api/v1/items'',
         req_params = [(''locations'', PList [''g1'']), (''page'', PInt 1), (''pageSize'', PInt 20)],
         req_headers = [(''Content-Type'', ''application/json''), (''Accept'', ''application/json'')]\<rparr>"
  let ?first = "[(''name'', JStr ''Drill''),
           (''location'', JObj [(''id'', JStr ''g1''), (''name'', JStr ''Garage'')])]"
  let ?a = "[(''total'', JInt 2), (''data'', JArr [JObj ?first, saw])]"
  let ?b = "[(''total'', JInt 2), (''data'', JArr [JObj [(''name'', JStr ''Saw'')], garage_drill])]"
  let ?neta = "respond 200 ''OK'' (Inr (found 2 [garage_drill, saw]))"
  let ?netb = "respond 200 ''OK'' (Inr (found 2 [saw, garage_drill]))"
  have senta: "fst (search_items_by_location valves0 ?neta ''g1'' 1 20) = [?req]"
    and sentb: "fst (search_items_by_location valves0 ?netb ''g1'' 1 20) = [?req]"
    by (simp_all add: operation_defs)
  have fetcha: "fetch_json (?neta ?req) = Inr (JObj ?a)"
    and fetchb: "fetch_json (?netb ?req) = Inr (JObj ?b)"
    by (simp_all add: fetch_json_respond_ok found_def garage_drill_def saw_def)
  obtain outa where outa: "search_items_by_location_format (JObj ?a) 1 20 = Inr outa"
    using that
    by (simp add: format_defs python_defs saw_def garage_drill_def str_int_def digits.simps)
  obtain outb where outb: "search_items_by_location_format (JObj ?b) 1 20 = Inr outb"
    using that
    by (simp add: format_defs python_defs saw_def garage_drill_def str_int_def digits.simps)
  have a: "snd (search_items_by_location valves0 ?neta ''g1'' 1 20) = Inr outa
      \<and> prefix (''Found 2 items in location 'Garage':\<newline>\<newline>'') outa"
    using location_name_from_first_item [OF senta fetcha _ _ outa, of ?first "[saw]" "JInt 2"]
    by (simp add: location_header_def python_defs str_int_def digits.simps)
  have b: "snd (search_items_by_location valves0 ?netb ''g1'' 1 20) = Inr outb
      \<and> prefix (''Found 2 items in location 'Unknown Location':\<newline>\<newline>'') outb"
    using location_name_from_first_item [OF sentb fetchb _ _ outb,
        of "[(''name'', JStr ''Saw'')]" "[garage_drill]" "JInt 2"]
    by (simp add: location_header_def python_defs str_int_def digits.simps)
  from a b show ?thesis
    by blast
qed

section \<open>get_item_details: the warranty block\<close>

lemma warranty_info_JObj:
  "warranty_info (JObj item) =
     Inr ((if present_and_truthy item ''lifetimeWarranty'' then [''- Lifetime Warranty: Yes''] else [])
        @ (case map_of item ''warrantyDetails'' of
             Some v \<Rightarrow> if py_truthy v then [''- Warranty Details: '' @ py_str v] else []
           | None \<Rightarrow> [])
        @ (case map_of item ''warrantyExpires'' of
             Some v \<Rightarrow> if py_truthy v then [''- Warranty Expires: '' @ py_str v] else []
           | None \<Rightarrow> []))"
  by (simp add: warranty_info_def entry_if_truthy_JObj present_and_truthy_def
        split: option.splits)

lemma warranty_lines:
  assumes "warranty_info (JObj item) = Inr lines"
  shows "lines \<noteq> [] \<longleftrightarrow>
      present_and_truthy item ''lifetimeWarranty''
      \<or> present_and_truthy item ''warrantyDetails''
      \<or> present_and_truthy item ''warrantyExpires''"
    and "''- Lifetime Warranty: Yes'' \<in> set lines \<longleftrightarrow> present_and_truthy item ''lifetimeWarranty''"
  using assms
  by (auto simp add: warranty_info_JObj present_and_truthy_def split: option.splits if_splits)

lemma warranty_info_without:
  "warranty_info (JObj (without_keys [''lifetimeWarranty'', ''warrantyDetails'', ''warrantyExpires''] item))
     = Inr []"
  by (simp add: warranty_info_JObj present_and_truthy_def map_of_without_keys)

lemma details_without_warranty:
  "get_item_details_format
     (JObj (without_keys [''lifetimeWarranty'', ''warrantyDetails'', ''warrantyExpires''] item)) =
   bindE (py_getitem (JObj item) ''name'') (\<lambda>name.
     bindE (line_if_truthy (JObj item) ''description'' ''Description: '' ''\<newline>\<newline>'') (\<lambda>description.
     bindE (line_if_truthy (JObj item) ''assetId'' ''- Asset ID: '' ''\<newline>'') (\<lambda>asset_id.
     bindE (line_if_present (JObj item) ''quantity'' ''- Quantity: '') (\<lambda>quantity.
     bindE (line_if_truthy (JObj item) ''manufacturer'' ''- Manufacturer: '' ''\<newline>'') (\<lambda>manufacturer.
     bindE (line_if_truthy (JObj item) ''modelNumber'' ''- Model Number: '' ''\<newline>'') (\<lambda>model.
     bindE (line_if_truthy (JObj item) ''serialNumber'' ''- Serial Number: '' ''\<newline>'') (\<lambda>serial.
     bindE (location_line (JObj item) ''\<newline>Location: '') (\<lambda>location.
     bindE (purchase_info (JObj item)) (\<lambda>purchase.
     bindE (custom_fields (JObj item)) (\<lambda>custom.
     bindE (line_if_truthy (JObj item) ''notes'' ''\<newline>Notes:\<newline>'' ''\<newline>'') (\<lambda>notes.
       Inr (''Item Details: '' @ py_str name @ ''\<newline>\<newline>''
            @ description
            @ ''Basic Information:\<newline>''
            @ asset_id @ quantity @ manufacturer @ model @ serial
            @ location
            @ info_block ''Purchase Information'' purchase
            @ custom
            @ notes))))))))))))"
  unfolding get_item_details_format_def warranty_info_without bindE_Inr
  by (simp add: line_if_truthy_def location_line_def purchase_info_def custom_fields_def
        entry_if_truthy_def truthy_field_without line_if_present_without py_getitem_without
        info_block_def del: py_getitem_JObj py_contains_JObj)

lemma details_without_warranty_fields_notes:
  "get_item_details_format
     (JObj (without_keys [''lifetimeWarranty'', ''warrantyDetails'', ''warrantyExpires'',
                          ''fields'', ''notes''] item)) =
   bindE (py_getitem (JObj item) ''name'') (\<lambda>name.
     bindE (line_if_truthy (JObj item) ''description'' ''Description: '' ''\<newline>\<newline>'') (\<lambda>description.
     bindE (line_if_truthy (JObj item) ''assetId'' ''- Asset ID: '' ''\<newline>'') (\<lambda>asset_id.
     bindE (line_if_present (JObj item) ''quantity'' ''- Quantity: '') (\<lambda>quantity.
     bindE (line_if_truthy (JObj item) ''manufacturer'' ''- Manufacturer: '' ''\<newline>'') (\<lambda>manufacturer.
     bindE (line_if_truthy (JObj item) ''modelNumber'' ''- Model Number: '' ''\<newline>'') (\<lambda>model.
     bindE (line_if_truthy (JObj item) ''serialNumber'' ''- Serial Number: '' ''\<newline>'') (\<lambda>serial.
     bindE (location_line (JObj item) ''\<newline>Location: '') (\<lambda>location.
     bindE (purchase_info (JObj item)) (\<lambda>purchase.
       Inr (''Item Details: '' @ py_str name @ ''\<newline>\<newline>''
            @ description
            @ ''Basic Information:\<newline>''
            @ asset_id @ quantity @ manufacturer @ model @ serial
            @ location
            @ info_block ''Purchase Information'' purchase))))))))))"
  unfolding get_item_details_format_def
  by (simp add: line_if_truthy_def location_line_def purchase_info_def custom_fields_def
        warranty_info_def entry_if_truthy_def truthy_field_without line_if_present_without
        py_getitem_without info_block_def del: py_getitem_JObj py_contains_JObj)




section \<open>Quantity against the other optional fields\<close>

lemma truthy_field_falsy:
  assumes "map_of item k = Some v" and "\<not> py_truthy v"
  shows "truthy_field (JObj (without_keys [k] item)) k' = truthy_field (JObj item) k'"
  using assms by (simp add: truthy_field_JObj map_of_without_keys)

lemma falsy_removed:
  assumes "map_of item k = Some v" and "\<not> py_truthy v"
  shows "line_if_truthy (JObj (without_keys [k] item)) k' label ending
      = line_if_truthy (JObj item) k' label ending"
    and "entry_if_truthy (JObj (without_keys [k] item)) k' render
      = entry_if_truthy (JObj item) k' render"
    and "location_line (JObj (without_keys [k] item)) label = location_line (JObj item) label"
    and "custom_fields (JObj (without_keys [k] item)) = custom_fields (JObj item)"
    and "purchase_info (JObj (without_keys [k] item)) = purchase_info (JObj item)"
    and "warranty_info (JObj (without_keys [k] item)) = warranty_info (JObj item)"
  by (simp_all only: line_if_truthy_def entry_if_truthy_def location_line_def custom_fields_def
        purchase_info_def warranty_info_def truthy_field_falsy [OF assms])

lemma other_key_removed:
  assumes "k \<noteq> k'"
  shows "py_getitem (JObj (without_keys [k] item)) k' = py_getitem (JObj item) k'"
    and "line_if_present (JObj (without_keys [k] item)) k' label
      = line_if_present (JObj item) k' label"
  using assms by (simp_all add: line_if_present_JObj map_of_without_keys)

lemma quantity_line_inside:
  assumes "map_of item ''quantity'' = Some q"
  shows "line_if_present (JObj item) ''quantity'' label = Inr (label @ py_str q @ ''\<newline>'')"
  using assms by (simp add: line_if_present_JObj)

lemma blocks_quantity_and_falsy:
  "(\<forall>k v. map_of item k = Some v \<and> \<not> py_truthy v \<and> k \<noteq> ''name'' \<and> k \<noteq> ''quantity'' \<longrightarrow>
       search_items_block idx (JObj (without_keys [k] item)) = search_items_block idx (JObj item)
     \<and> get_item_details_format (JObj (without_keys [k] item)) = get_item_details_format (JObj item)
     \<and> location_items_block idx (JObj (without_keys [k] item))
         = location_items_block idx (JObj item))
   \<and> (\<forall>q out. map_of item ''quantity'' = Some q \<longrightarrow>
       (search_items_block idx (JObj item) = Inr out \<longrightarrow>
          (\<exists>before after. out = before @ ''   Quantity: '' @ py_str q @ ''\<newline>'' @ after))
     \<and> (get_item_details_format (JObj item) = Inr out \<longrightarrow>
          (\<exists>before after. out = before @ ''- Quantity: '' @ py_str q @ ''\<newline>'' @ after))
     \<and> (location_items_block idx (JObj item) = Inr out \<longrightarrow>
          (\<exists>before after. out = before @ ''   Quantity: '' @ py_str q @ ''\<newline>'' @ after)))"
proof (intro conjI allI impI)
  fix k v
  assume a: "map_of item k = Some v \<and> \<not> py_truthy v \<and> k \<noteq> ''name'' \<and> k \<noteq> ''quantity''"
  then have f: "map_of item k = Some v" "\<not> py_truthy v"
    and n: "k \<noteq> ''name''" and q: "k \<noteq> ''quantity''"
    by simp_all
  show "search_items_block idx (JObj (without_keys [k] item)) = search_items_block idx (JObj item)"
    by (simp only: search_items_block_def falsy_removed [OF f] other_key_removed [OF n]
          other_key_removed [OF q])
  show "get_item_details_format (JObj (without_keys [k] item)) = get_item_details_format (JObj item)"
    by (simp only: get_item_details_format_def falsy_removed [OF f] other_key_removed [OF n]
          other_key_removed [OF q])
  show "location_items_block idx (JObj (without_keys [k] item))
      = location_items_block idx (JObj item)"
    by (simp only: location_items_block_def falsy_removed [OF f] other_key_removed [OF n]
          other_key_removed [OF q])
next
  fix q out
  assume q: "map_of item ''quantity'' = Some q"
    and out: "search_items_block idx (JObj item) = Inr out"
  from out obtain name description location asset_id manufacturer model
    where "out = (str_int idx @ ''. '' @ py_str name @ ''\<newline>'' @ description @ location @ asset_id)
        @ ''   Quantity: '' @ py_str q @ ''\<newline>'' @ (manufacturer @ model @ ''\<newline>'')"
    unfolding search_items_block_def quantity_line_inside [OF q] bindE_eq_Inr by auto
  then show "\<exists>before after. out = before @ ''   Quantity: '' @ py_str q @ ''\<newline>'' @ after"
    by blast
next
  fix q out
  assume q: "map_of item ''quantity'' = Some q"
    and out: "get_item_details_format (JObj item) = Inr out"
  from out obtain name description asset_id rest
    where "out = (''Item Details: '' @ py_str name @ ''\<newline>\<newline>'' @ description
          @ ''Basic Information:\<newline>'' @ asset_id)
        @ ''- Quantity: '' @ py_str q @ ''\<newline>'' @ rest"
    unfolding get_item_details_format_def quantity_line_inside [OF q] bindE_eq_Inr by auto
  then show "\<exists>before after. out = before @ ''- Quantity: '' @ py_str q @ ''\<newline>'' @ after"
    by blast
next
  fix q out
  assume q: "map_of item ''quantity'' = Some q"
    and out: "location_items_block idx (JObj item) = Inr out"
  from out obtain name description asset_id
    where "out = (str_int idx @ ''. '' @ py_str name @ ''\<newline>'' @ description @ asset_id)
        @ ''   Quantity: '' @ py_str q @ ''\<newline>'' @ ''\<newline>''"
    unfolding location_items_block_def quantity_line_inside [OF q] bindE_eq_Inr by auto
  then show "\<exists>before after. out = before @ ''   Quantity: '' @ py_str q @ ''\<newline>'' @ after"
    by blast
qed

lemma for_enumerate_blocks:
  "for_enumerate block xs idx result = Inr out \<Longrightarrow>
   \<exists>texts. length texts = length xs
     \<and> (\<forall>i < length xs. block (idx + int i) (xs ! i) = Inr (texts ! i))
     \<and> out = result @ concat texts"
proof (induction xs arbitrary: idx result)
  case Nil
  then show ?case by simp
next
  case (Cons x xs)
  then obtain t where t: "block idx x = Inr t"
    and rest: "for_enumerate block xs (idx + 1) (result @ t) = Inr out"
    by (auto simp add: bindE_eq_Inr)
  from Cons.IH [OF rest] obtain texts where len: "length texts = length xs"
    and each: "\<forall>i < length xs. block (idx + 1 + int i) (xs ! i) = Inr (texts ! i)"
    and out: "out = (result @ t) @ concat texts"
    by blast
  have "\<forall>i < length (x # xs). block (idx + int i) ((x # xs) ! i) = Inr ((t # texts) ! i)"
  proof (intro allI impI)
    fix i
    assume "i < length (x # xs)"
    then show "block (idx + int i) ((x # xs) ! i) = Inr ((t # texts) ! i)"
      using t each by (cases i) (simp_all add: add.assoc)
  qed
  moreover have "length (t # texts) = length (x # xs)"
    using len by simp
  moreover have "out = result @ concat (t # texts)"
    using out by simp
  ultimately show ?case
    by blast
qed

lemma blocks_of_search_items:
  assumes "blocks_of search_items_block items texts"
  shows "(\<forall>i fields q.
            i < length items \<and> items ! i = JObj fields
            \<and> map_of fields ''quantity'' = Some q \<longrightarrow>
          (\<exists>before after.
             texts ! i = before @ ''   Quantity: '' @ py_str q @ ''\<newline>'' @ after))
    \<and> (\<forall>i fields k x.
            i < length items \<and> items ! i = JObj fields
            \<and> map_of fields k = Some x \<and> \<not> py_truthy x
            \<and> k \<noteq> ''name'' \<and> k \<noteq> ''quantity'' \<longrightarrow>
          search_items_block (1 + int i) (JObj (without_keys [k] fields)) = Inr (texts ! i))"
proof (intro conjI allI impI)
  fix i fields q
  assume a: "i < length items \<and> items ! i = JObj fields \<and> map_of fields ''quantity'' = Some q"
  with assms have "search_items_block (1 + int i) (JObj fields) = Inr (texts ! i)"
    by (auto simp add: blocks_of_def)
  with a blocks_quantity_and_falsy [of fields "1 + int i"]
  show "\<exists>before after. texts ! i = before @ ''   Quantity: '' @ py_str q @ ''\<newline>'' @ after"
    by blast
next
  fix i fields k x
  assume a: "i < length items \<and> items ! i = JObj fields
            \<and> map_of fields k = Some x \<and> \<not> py_truthy x
            \<and> k \<noteq> ''name'' \<and> k \<noteq> ''quantity''"
  with assms have "search_items_block (1 + int i) (JObj fields) = Inr (texts ! i)"
    by (auto simp add: blocks_of_def)
  moreover from a blocks_quantity_and_falsy [of fields "1 + int i"]
  have "search_items_block (1 + int i) (JObj (without_keys [k] fields))
      = search_items_block (1 + int i) (JObj fields)"
    by blast
  ultimately show "search_items_block (1 + int i) (JObj (without_keys [k] fields)) = Inr (texts ! i)"
    by simp
qed

lemma blocks_of_location_items:
  assumes "blocks_of location_items_block items texts"
  shows "(\<forall>i fields q.
            i < length items \<and> items ! i = JObj fields
            \<and> map_of fields ''quantity'' = Some q \<longrightarrow>
          (\<exists>before after.
             texts ! i = before @ ''   Quantity: '' @ py_str q @ ''\<newline>'' @ after))
    \<and> (\<forall>i fields k x.
            i < length items \<and> items ! i = JObj fields
            \<and> map_of fields k = Some x \<and> \<not> py_truthy x
            \<and> k \<noteq> ''name'' \<and> k \<noteq> ''quantity'' \<longrightarrow>
          location_items_block (1 + int i) (JObj (without_keys [k] fields)) = Inr (texts ! i))"
proof (intro conjI allI impI)
  fix i fields q
  assume a: "i < length items \<and> items ! i = JObj fields \<and> map_of fields ''quantity'' = Some q"
  with assms have "location_items_block (1 + int i) (JObj fields) = Inr (texts ! i)"
    by (auto simp add: blocks_of_def)
  with a blocks_quantity_and_falsy [of fields "1 + int i"]
  show "\<exists>before after. texts ! i = before @ ''   Quantity: '' @ py_str q @ ''\<newline>'' @ after"
    by blast
next
  fix i fields k x
  assume a: "i < length items \<and> items ! i = JObj fields
            \<and> map_of fields k = Some x \<and> \<not> py_truthy x
            \<and> k \<noteq> ''name'' \<and> k \<noteq> ''quantity''"
  with assms have "location_items_block (1 + int i) (JObj fields) = Inr (texts ! i)"
    by (auto simp add: blocks_of_def)
  moreover from a blocks_quantity_and_falsy [of fields "1 + int i"]
  have "location_items_block (1 + int i) (JObj (without_keys [k] fields))
      = location_items_block (1 + int i) (JObj fields)"
    by blast
  ultimately show "location_items_block (1 + int i) (JObj (without_keys [k] fields)) = Inr (texts ! i)"
    by simp
qed

lemma search_items_format_blocks:
  assumes "map_of data ''data'' = Some (JArr items)" and "items \<noteq> []"
    and "search_items_format (JObj data) query page page_size = Inr out"
  shows "\<exists>count texts footer. map_of data ''total'' = Some count
    \<and> pagination (JObj data) page page_size = Inr footer
    \<and> blocks_of search_items_block items texts
    \<and> (\<forall>i fields q.
                   i < length items \<and> items ! i = JObj fields
                   \<and> map_of fields ''quantity'' = Some q \<longrightarrow>
                 (\<exists>before after.
                    texts ! i = before @ ''   Quantity: '' @ py_str q @ ''\<newline>'' @ after))
             \<and> (\<forall>i fields k x.
                   i < length items \<and> items ! i = JObj fields
                   \<and> map_of fields k = Some x \<and> \<not> py_truthy x
                   \<and> k \<noteq> ''name'' \<and> k \<noteq> ''quantity'' \<longrightarrow>
                 search_items_block (1 + int i) (JObj (without_keys [k] fields)) = Inr (texts ! i))
    \<and> out = ''Found '' @ py_str count @ '' items matching '' @ quoted query
            @ '':\<newline>\<newline>'' @ concat texts @ footer"
proof -
  have nonempty: "nonempty_data (JObj data) = Inr True"
    using assms(1,2) by (simp add: nonempty_data_def)
  from assms(3) obtain count body footer
    where count: "map_of data ''total'' = Some count"
      and body: "for_enumerate search_items_block items 1
          (''Found '' @ py_str count @ '' items matching '' @ quoted query @ '':\<newline>\<newline>'')
          = Inr body"
      and footer: "pagination (JObj data) page page_size = Inr footer"
      and out: "out = body @ footer"
    using assms(1) nonempty
    by (auto simp add: search_items_format_def bindE_eq_Inr split: option.splits)
  from for_enumerate_blocks [OF body] obtain texts
    where blocks: "blocks_of search_items_block items texts"
      and "body = (''Found '' @ py_str count @ '' items matching '' @ quoted query
            @ '':\<newline>\<newline>'') @ concat texts"
    unfolding blocks_of_def by blast
  with out have whole: "out = ''Found '' @ py_str count @ '' items matching '' @ quoted query
            @ '':\<newline>\<newline>'' @ concat texts @ footer"
    by simp
  note each = blocks_of_search_items [OF blocks]
  show ?thesis
    by (intro exI conjI)
      (rule count footer blocks each [THEN conjunct1] each [THEN conjunct2] whole)+
qed

lemma search_items_by_location_format_blocks:
  assumes "map_of data ''data'' = Some (JArr items)" and "items \<noteq> []"
    and "search_items_by_location_format (JObj data) page page_size = Inr out"
  shows "\<exists>count name texts footer. map_of data ''total'' = Some count
    \<and> location_name (JObj data) = Inr name
    \<and> pagination (JObj data) page page_size = Inr footer
    \<and> blocks_of location_items_block items texts
    \<and> (\<forall>i fields q.
                   i < length items \<and> items ! i = JObj fields
                   \<and> map_of fields ''quantity'' = Some q \<longrightarrow>
                 (\<exists>before after.
                    texts ! i = before @ ''   Quantity: '' @ py_str q @ ''\<newline>'' @ after))
             \<and> (\<forall>i fields k x.
                   i < length items \<and> items ! i = JObj fields
                   \<and> map_of fields k = Some x \<and> \<not> py_truthy x
                   \<and> k \<noteq> ''name'' \<and> k \<noteq> ''quantity'' \<longrightarrow>
                 location_items_block (1 + int i) (JObj (without_keys [k] fields)) = Inr (texts ! i))
    \<and> out = location_header count name @ concat texts @ footer"
proof -
  have nonempty: "nonempty_data (JObj data) = Inr True"
    using assms(1,2) by (simp add: nonempty_data_def)
  from assms(3) obtain count name body footer
    where count: "map_of data ''total'' = Some count"
      and name: "location_name (JObj data) = Inr name"
      and body: "for_enumerate location_items_block items 1 (location_header count name) = Inr body"
      and footer: "pagination (JObj data) page page_size = Inr footer"
      and out: "out = body @ footer"
    using assms(1) nonempty
    by (auto simp add: search_items_by_location_format_def bindE_eq_Inr split: option.splits)
  from for_enumerate_blocks [OF body] obtain texts
    where blocks: "blocks_of location_items_block items texts"
      and "body = location_header count name @ concat texts"
    unfolding blocks_of_def by blast
  with out have whole: "out = location_header count name @ concat texts @ footer"
    by simp
  note each = blocks_of_location_items [OF blocks]
  show ?thesis
    by (intro exI conjI)
      (rule count name footer blocks each [THEN conjunct1] each [THEN conjunct2] whole)+
qed



end
